theory Spec2Isabelle
  imports Main "HOL-Library.Multiset"
begin

section \<open>Python values, dictionaries and exceptions\<close>

text \<open>
  Token records are the dictionaries that \<^verbatim>\<open>response.json()\<close> returns: string keys,
  dynamically typed values. The values are the JSON value types (floating-point
  numbers are left out). A dictionary is an association list in insertion order; a key
  is looked up at its first occurrence and an assignment overwrites it in place or
  appends it, as a Python \<^verbatim>\<open>dict\<close> does.
\<close>

datatype pyval =
    PNone
  | PBool bool
  | PInt int
  | PStr string
  | PList "pyval list"
  | PDict "(string \<times> pyval) list"

type_synonym pydict = "(string \<times> pyval) list"

text \<open>The truth value Python gives to \<^verbatim>\<open>not v\<close> is the negation of this.\<close>

fun truthy :: "pyval \<Rightarrow> bool" where
  "truthy PNone = False"
| "truthy (PBool b) = b"
| "truthy (PInt i) = (i \<noteq> 0)"
| "truthy (PStr s) = (s \<noteq> [])"
| "truthy (PList xs) = (xs \<noteq> [])"
| "truthy (PDict kvs) = (kvs \<noteq> [])"

text \<open>\<^verbatim>\<open>d.get(k)\<close>: the value, or \<^verbatim>\<open>None\<close> when the key is absent.\<close>

definition dict_get :: "pydict \<Rightarrow> string \<Rightarrow> pyval" where
  "dict_get d k = (case map_of d k of None \<Rightarrow> PNone | Some v \<Rightarrow> v)"

text \<open>\<^verbatim>\<open>d[k] = v\<close>.\<close>

fun dict_set :: "string \<Rightarrow> pyval \<Rightarrow> pydict \<Rightarrow> pydict" where
  "dict_set k v [] = [(k, v)]"
| "dict_set k v (kv # d) = (if fst kv = k then (k, v) # d else kv # dict_set k v d)"

text \<open>
  The exceptions that leave the modelled functions. \<^verbatim>\<open>ValueError\<close> is not among them:
  the only place that raises it is \<^verbatim>\<open>datetime.fromisoformat\<close>, inside a
  \<^verbatim>\<open>try\<close> whose handler catches it.
\<close>

datatype py_error = AttributeError | OverflowError | KeyError

section \<open>Dates, durations and the clock\<close>

text \<open>
  A naive \<^verbatim>\<open>datetime\<close> is the number of microseconds from 0001-01-01T00:00:00 on the
  wall clock; an aware one carries its UTC offset as well. \<^verbatim>\<open>datetime\<close> covers the years
  1 to 9999, that is \<open>3652059\<close> days, and an addition that leaves this range raises
  \<^verbatim>\<open>OverflowError\<close>; \<^verbatim>\<open>timedelta(days=d)\<close> raises it when \<open>d\<close> has a magnitude
  above \<open>999999999\<close>.
\<close>

datatype datetime = Datetime (wall_us: int) (utcoffset: "int option")

definition us_per_day :: int where
  "us_per_day = 86400000000"

definition max_us :: int where
  "max_us = 3652059 * us_per_day"

text \<open>\<^verbatim>\<open>timedelta(days=d)\<close>, in microseconds.\<close>

definition timedelta_days :: "int \<Rightarrow> py_error + int" where
  "timedelta_days d =
     (if d < - 999999999 \<or> 999999999 < d then Inl OverflowError else Inr (d * us_per_day))"

text \<open>\<^verbatim>\<open>t + delta\<close> for a naive \<^verbatim>\<open>datetime\<close> \<open>t\<close>.\<close>

definition datetime_add :: "int \<Rightarrow> int \<Rightarrow> py_error + int" where
  "datetime_add t delta =
     (if 0 \<le> t + delta \<and> t + delta < max_us then Inr (t + delta) else Inl OverflowError)"

text \<open>
  \<^verbatim>\<open>(a - b).days\<close> for naive \<^verbatim>\<open>a\<close>, \<^verbatim>\<open>b\<close>: a \<^verbatim>\<open>timedelta\<close> is normalised with
  \<open>0 \<le> seconds < 86400\<close> and \<open>0 \<le> microseconds < 1000000\<close>, so its \<^verbatim>\<open>days\<close> is the
  floor of the difference in days.
\<close>

definition days_between :: "int \<Rightarrow> int \<Rightarrow> int" where
  "days_between a b = (a - b) div us_per_day"

text \<open>\<^verbatim>\<open>d.replace(tzinfo=None)\<close>: the wall-clock fields stay, the offset goes.\<close>

definition replace_tzinfo_None :: "datetime \<Rightarrow> datetime" where
  "replace_tzinfo_None d = Datetime (wall_us d) None"

text \<open>\<^verbatim>\<open>s.replace('Z', '+00:00')\<close>: every occurrence is replaced.\<close>

definition replace_Z :: "string \<Rightarrow> string" where
  "replace_Z s = concat (map (\<lambda>c. if c = CHR ''Z'' then ''+00:00'' else [c]) s)"

text \<open>
  \<^verbatim>\<open>datetime.fromisoformat\<close> belongs to the Python library, and the strings it accepts
  differ between Python versions. The functions below take it as the parameter
  \<open>parse\<close>: \<open>None\<close> stands for the \<^verbatim>\<open>ValueError\<close> it raises.

  \<^verbatim>\<open>datetime.now()\<close> is the parameter \<open>clk\<close>: \<open>clk k\<close> is what the \<open>k\<close>-th call
  (counted from \<open>0\<close>) made during one run of a function returns. An evaluation
  instant \<open>now\<close> is the clock \<open>fixed_clock now\<close>.
\<close>

type_synonym parser = "string \<Rightarrow> datetime option"

type_synonym clock = "nat \<Rightarrow> int"

definition fixed_clock :: "int \<Rightarrow> clock" where
  "fixed_clock now = (\<lambda>k. now)"

section \<open>\<^verbatim>\<open>token_analyzer.py\<close>\<close>

text \<open>
  The token dictionaries are objects that the analyzer updates in place and whose
  references it stores in the result lists. The heap maps a reference to the current
  contents of its dictionary; lists hold references.
\<close>

type_synonym addr = nat

type_synonym heap = "addr \<Rightarrow> pydict"

datatype category = Expired | ExpiringSoon | Healthy | NoExpiration

record analysis =
  expiring_soon :: "addr list"
  expired :: "addr list"
  healthy :: "addr list"
  no_expiration :: "addr list"
  total_count :: nat

fun bucket :: "category \<Rightarrow> analysis \<Rightarrow> addr list" where
  "bucket Expired r = expired r"
| "bucket ExpiringSoon r = expiring_soon r"
| "bucket Healthy r = healthy r"
| "bucket NoExpiration r = no_expiration r"

text \<open>\<^verbatim>\<open>result[c].append(token)\<close>.\<close>

fun bucket_append :: "category \<Rightarrow> addr \<Rightarrow> analysis \<Rightarrow> analysis" where
  "bucket_append Expired a r = r\<lparr>expired := expired r @ [a]\<rparr>"
| "bucket_append ExpiringSoon a r = r\<lparr>expiring_soon := expiring_soon r @ [a]\<rparr>"
| "bucket_append Healthy a r = r\<lparr>healthy := healthy r @ [a]\<rparr>"
| "bucket_append NoExpiration a r = r\<lparr>no_expiration := no_expiration r @ [a]\<rparr>"

text \<open>
  The body of the loop of \<^verbatim>\<open>analyze_all_tokens\<close> on one dictionary: the list the
  reference is appended to, and the new contents of the dictionary. A truthy
  \<^verbatim>\<open>expires_at\<close> that is not a string (a number, \<^verbatim>\<open>True\<close>, a list, a dictionary)
  has no method \<^verbatim>\<open>replace\<close>, and the \<^verbatim>\<open>AttributeError\<close> is not caught by
  \<^verbatim>\<open>except ValueError\<close>.
\<close>

definition analyze_token ::
  "parser \<Rightarrow> int \<Rightarrow> int \<Rightarrow> pydict \<Rightarrow> py_error + (category \<times> pydict)" where
  "analyze_token parse threshold_date current_date token =
     (if \<not> truthy (dict_get token ''expires_at'') then
        Inr (NoExpiration,
             dict_set ''days_until_expiry'' (PStr ''Never'')
               (dict_set ''status'' (PStr ''No Expiration'') token))
      else
        (case dict_get token ''expires_at'' of
           PStr s \<Rightarrow>
             (case parse (replace_Z s) of
                None \<Rightarrow>
                  Inr (Healthy,
                       dict_set ''days_until_expiry'' (PStr ''Unknown'')
                         (dict_set ''status'' (PStr ''Error'') token))
              | Some d \<Rightarrow>
                  (let expires_at = wall_us (replace_tzinfo_None d);
                       days_until_expiry = days_between expires_at current_date;
                       token1 = dict_set ''days_until_expiry'' (PInt days_until_expiry) token
                   in if expires_at \<le> current_date then
                        Inr (Expired, dict_set ''status'' (PStr ''Expired'') token1)
                      else if expires_at \<le> threshold_date then
                        Inr (ExpiringSoon, dict_set ''status'' (PStr ''Expiring Soon'') token1)
                      else
                        Inr (Healthy, dict_set ''status'' (PStr ''Healthy'') token1)))
         | _ \<Rightarrow> Inl AttributeError))"

fun analyze_loop ::
  "parser \<Rightarrow> int \<Rightarrow> int \<Rightarrow> addr list \<Rightarrow> analysis \<times> heap \<Rightarrow> py_error + (analysis \<times> heap)" where
  "analyze_loop parse threshold_date current_date [] st = Inr st"
| "analyze_loop parse threshold_date current_date (a # as) (result, h) =
     (case analyze_token parse threshold_date current_date (h a) of
        Inl e \<Rightarrow> Inl e
      | Inr (c, token') \<Rightarrow>
          analyze_loop parse threshold_date current_date as
            (bucket_append c a result, h(a := token')))"

definition analyze_all_tokens ::
  "parser \<Rightarrow> clock \<Rightarrow> int \<Rightarrow> addr list \<Rightarrow> heap \<Rightarrow> py_error + (analysis \<times> heap)" where
  "analyze_all_tokens parse clk days_threshold tokens h =
     (let result = \<lparr>expiring_soon = [], expired = [], healthy = [], no_expiration = [],
                    total_count = length tokens\<rparr>
      in case timedelta_days days_threshold of
           Inl e \<Rightarrow> Inl e
         | Inr delta \<Rightarrow>
             (case datetime_add (clk 0) delta of
                Inl e \<Rightarrow> Inl e
              | Inr threshold_date \<Rightarrow>
                  (let current_date = clk 1
                   in analyze_loop parse threshold_date current_date tokens (result, h))))"

record summary_stats =
  total_tokens :: nat
  expired_count :: nat
  expiring_count :: nat
  healthy_count :: nat
  permanent_count :: nat
  problematic_count :: nat

definition get_summary_stats :: "analysis \<Rightarrow> summary_stats" where
  "get_summary_stats token_analysis =
     \<lparr>total_tokens = total_count token_analysis,
      expired_count = length (expired token_analysis),
      expiring_count = length (expiring_soon token_analysis),
      healthy_count = length (healthy token_analysis),
      permanent_count = length (no_expiration token_analysis),
      problematic_count = length (expired token_analysis) + length (expiring_soon token_analysis)\<rparr>"

section \<open>\<^verbatim>\<open>main.py\<close>\<close>

text \<open>
  \<^verbatim>\<open>_merge_analysis\<close>: each list of the accumulator is extended by the matching list of
  the new analysis, and the counts are added.
\<close>

definition merge_analysis :: "analysis \<Rightarrow> analysis \<Rightarrow> analysis" where
  "merge_analysis all_analysis new_analysis =
     \<lparr>expiring_soon = expiring_soon all_analysis @ expiring_soon new_analysis,
      expired = expired all_analysis @ expired new_analysis,
      healthy = healthy all_analysis @ healthy new_analysis,
      no_expiration = no_expiration all_analysis @ no_expiration new_analysis,
      total_count = total_count all_analysis + total_count new_analysis\<rparr>"

text \<open>\<^verbatim>\<open>d[k]\<close> raises \<^verbatim>\<open>KeyError\<close> on an absent key; \<^verbatim>\<open>d.get(k, default)\<close> does not.\<close>

definition dict_index :: "pydict \<Rightarrow> string \<Rightarrow> py_error + pyval" where
  "dict_index d k = (case map_of d k of None \<Rightarrow> Inl KeyError | Some v \<Rightarrow> Inr v)"

definition dict_get_default :: "pydict \<Rightarrow> string \<Rightarrow> pyval \<Rightarrow> pyval" where
  "dict_get_default d k dflt = (case map_of d k of None \<Rightarrow> dflt | Some v \<Rightarrow> v)"

text \<open>
  The two assignments that \<^verbatim>\<open>_process_project_tokens\<close> and
  \<^verbatim>\<open>_process_group_tokens\<close> make on one token. The default of \<^verbatim>\<open>get\<close> is
  \<^verbatim>\<open>scope['name']\<close>, evaluated before the call.
\<close>

definition add_scope_info ::
  "string \<Rightarrow> string \<Rightarrow> string \<Rightarrow> pydict \<Rightarrow> pydict \<Rightarrow> py_error + pydict" where
  "add_scope_info name_key path_key path_field scope token =
     (case dict_index scope ''name'' of
        Inl e \<Rightarrow> Inl e
      | Inr name \<Rightarrow>
          (let token1 = dict_set name_key name token
           in case dict_index scope ''name'' of
                Inl e \<Rightarrow> Inl e
              | Inr dflt \<Rightarrow>
                  Inr (dict_set path_key (dict_get_default scope path_field dflt) token1)))"

fun add_info_loop ::
  "(pydict \<Rightarrow> py_error + pydict) \<Rightarrow> addr list \<Rightarrow> heap \<Rightarrow> py_error + heap" where
  "add_info_loop f [] h = Inr h"
| "add_info_loop f (a # as) h =
     (case f (h a) of
        Inl e \<Rightarrow> Inl e
      | Inr token' \<Rightarrow> add_info_loop f as (h(a := token')))"

text \<open>The references of an analysis, in the order in which the two nested loops visit them.\<close>

definition all_tokens :: "analysis \<Rightarrow> addr list" where
  "all_tokens r = expired r @ expiring_soon r @ healthy r @ no_expiration r"

definition add_project_info :: "pydict \<Rightarrow> analysis \<Rightarrow> heap \<Rightarrow> py_error + heap" where
  "add_project_info project project_analysis h =
     add_info_loop (add_scope_info ''project_name'' ''project_path'' ''path_with_namespace'' project)
       (all_tokens project_analysis) h"

definition add_group_info :: "pydict \<Rightarrow> analysis \<Rightarrow> heap \<Rightarrow> py_error + heap" where
  "add_group_info grp group_analysis h =
     add_info_loop (add_scope_info ''group_name'' ''group_path'' ''full_path'' grp)
       (all_tokens group_analysis) h"

text \<open>
  Lines 86 to 91 and 114 to 119: the metadata is attached to the batch, then the batch
  is merged into the accumulator.
\<close>

definition attach_project_and_merge ::
  "pydict \<Rightarrow> analysis \<Rightarrow> analysis \<Rightarrow> heap \<Rightarrow> py_error + (analysis \<times> heap)" where
  "attach_project_and_merge project all_token_analysis project_analysis h =
     (case add_project_info project project_analysis h of
        Inl e \<Rightarrow> Inl e
      | Inr h' \<Rightarrow> Inr (merge_analysis all_token_analysis project_analysis, h'))"

definition attach_group_and_merge ::
  "pydict \<Rightarrow> analysis \<Rightarrow> analysis \<Rightarrow> heap \<Rightarrow> py_error + (analysis \<times> heap)" where
  "attach_group_and_merge grp all_token_analysis group_analysis h =
     (case add_group_info grp group_analysis h of
        Inl e \<Rightarrow> Inl e
      | Inr h' \<Rightarrow> Inr (merge_analysis all_token_analysis group_analysis, h'))"

text \<open>
  The decision of \<^verbatim>\<open>_print_summary_and_notify\<close> and the gate at the head of
  \<^verbatim>\<open>EmailReporter.send_notification\<close>, which reads the key
  \<^verbatim>\<open>include_all_tokens\<close> that the caller has just set (\<open>None\<close>: the key is absent).
  \<open>ReportComposed\<close> means that the reporter goes on to build and send the message; a
  failure of the delivery is caught and printed there.
\<close>

datatype notification = ReportComposed bool analysis | ReportSkipped

definition send_notification :: "bool option \<Rightarrow> analysis \<Rightarrow> notification" where
  "send_notification include_all_tokens token_analysis =
     (let stats = get_summary_stats token_analysis;
          include_all = (case include_all_tokens of None \<Rightarrow> False | Some b \<Rightarrow> b)
      in if \<not> include_all \<and> problematic_count stats = 0 then ReportSkipped
         else ReportComposed include_all token_analysis)"

definition print_summary_and_notify :: "bool \<Rightarrow> analysis \<Rightarrow> notification" where
  "print_summary_and_notify send_all_tokens all_token_analysis =
     (let stats = get_summary_stats all_token_analysis
      in if send_all_tokens \<or> problematic_count stats > 0 then
           send_notification (Some send_all_tokens) all_token_analysis
         else ReportSkipped)"

section \<open>\<^verbatim>\<open>gitlab_token_monitoring.py\<close>\<close>

text \<open>
  The loop of the older \<^verbatim>\<open>check_token_expiration\<close>. It reads the clock once for
  each token it selects; \<open>k\<close> counts the calls made so far.
\<close>

fun check_loop ::
  "parser \<Rightarrow> clock \<Rightarrow> int \<Rightarrow> addr list \<Rightarrow> addr list \<times> nat \<times> heap
     \<Rightarrow> py_error + (addr list \<times> nat \<times> heap)" where
  "check_loop parse clk threshold_date [] st = Inr st"
| "check_loop parse clk threshold_date (a # as) (expiring_tokens, k, h) =
     (if \<not> truthy (dict_get (h a) ''expires_at'') then
        check_loop parse clk threshold_date as (expiring_tokens, k, h)
      else
        (case dict_get (h a) ''expires_at'' of
           PStr s \<Rightarrow>
             (case parse (replace_Z s) of
                None \<Rightarrow> check_loop parse clk threshold_date as (expiring_tokens, k, h)
              | Some d \<Rightarrow>
                  (if wall_us (replace_tzinfo_None d) \<le> threshold_date then
                     check_loop parse clk threshold_date as
                       (expiring_tokens @ [a], Suc k,
                        h(a := dict_set ''days_until_expiry''
                                 (PInt (days_between (wall_us (replace_tzinfo_None d)) (clk k)))
                                 (h a)))
                   else check_loop parse clk threshold_date as (expiring_tokens, k, h)))
         | _ \<Rightarrow> Inl AttributeError))"

definition check_token_expiration ::
  "parser \<Rightarrow> clock \<Rightarrow> int \<Rightarrow> addr list \<Rightarrow> heap \<Rightarrow> py_error + (addr list \<times> heap)" where
  "check_token_expiration parse clk days_threshold tokens h =
     (case timedelta_days days_threshold of
        Inl e \<Rightarrow> Inl e
      | Inr delta \<Rightarrow>
          (case datetime_add (clk 0) delta of
             Inl e \<Rightarrow> Inl e
           | Inr threshold_date \<Rightarrow>
               (case check_loop parse clk threshold_date tokens ([], 1, h) of
                  Inl e \<Rightarrow> Inl e
                | Inr (expiring_tokens, k, h') \<Rightarrow> Inr (expiring_tokens, h'))))"

section \<open>A parser for the examples\<close>

text \<open>
  The examples need one concrete parser. \<open>iso_parse\<close> reads the shapes
  \<^verbatim>\<open>YYYY-MM-DD\<close>, \<^verbatim>\<open>YYYY-MM-DD?HH:MM:SS\<close> and \<^verbatim>\<open>YYYY-MM-DD?HH:MM:SS+HH:MM\<close>
  (\<^verbatim>\<open>?\<close> any character, the sign \<^verbatim>\<open>+\<close> or \<^verbatim>\<open>-\<close>), which
  \<^verbatim>\<open>datetime.fromisoformat\<close> has read since Python 3.7, with the calendar arithmetic
  of the \<^verbatim>\<open>datetime\<close> module. It rejects every other string, also those that
  \<^verbatim>\<open>fromisoformat\<close> reads; the general theorems hold for every parser.
\<close>

definition digit :: "char \<Rightarrow> int option" where
  "digit c = map_of (zip ''0123456789'' [0, 1, 2, 3, 4, 5, 6, 7, 8, 9]) c"

fun digits_acc :: "int \<Rightarrow> string \<Rightarrow> int option" where
  "digits_acc n [] = Some n"
| "digits_acc n (c # cs) =
     (case digit c of None \<Rightarrow> None | Some v \<Rightarrow> digits_acc (10 * n + v) cs)"

definition digits :: "string \<Rightarrow> int option" where
  "digits s = (if s = [] then None else digits_acc 0 s)"

definition is_leap :: "int \<Rightarrow> bool" where
  "is_leap y = (y mod 4 = 0 \<and> (y mod 100 \<noteq> 0 \<or> y mod 400 = 0))"

definition days_in_month :: "int \<Rightarrow> int \<Rightarrow> int" where
  "days_in_month y m =
     (if m = 2 then (if is_leap y then 29 else 28)
      else if m = 4 \<or> m = 6 \<or> m = 9 \<or> m = 11 then 30 else 31)"

definition days_before_year :: "int \<Rightarrow> int" where
  "days_before_year y = (y - 1) * 365 + (y - 1) div 4 - (y - 1) div 100 + (y - 1) div 400"

definition days_before_month :: "int \<Rightarrow> int \<Rightarrow> int" where
  "days_before_month y m = sum_list (map (days_in_month y) [1..m - 1])"

text \<open>The days from 0001-01-01 to the given date.\<close>

definition parse_date :: "string \<Rightarrow> int option" where
  "parse_date s =
     (if length s = 10 \<and> s ! 4 = CHR ''-'' \<and> s ! 7 = CHR ''-'' then
        (case (digits (take 4 s), digits (take 2 (drop 5 s)), digits (drop 8 s)) of
           (Some y, Some m, Some d) \<Rightarrow>
             (if 1 \<le> y \<and> 1 \<le> m \<and> m \<le> 12 \<and> 1 \<le> d \<and> d \<le> days_in_month y m
              then Some (days_before_year y + days_before_month y m + d - 1) else None)
         | _ \<Rightarrow> None)
      else None)"

text \<open>The seconds of \<^verbatim>\<open>HH:MM:SS\<close>.\<close>

definition parse_hms :: "string \<Rightarrow> int option" where
  "parse_hms s =
     (if length s = 8 \<and> s ! 2 = CHR '':'' \<and> s ! 5 = CHR '':'' then
        (case (digits (take 2 s), digits (take 2 (drop 3 s)), digits (drop 6 s)) of
           (Some hh, Some mm, Some ss) \<Rightarrow>
             (if hh < 24 \<and> mm < 60 \<and> ss < 60 then Some (hh * 3600 + mm * 60 + ss) else None)
         | _ \<Rightarrow> None)
      else None)"

text \<open>The seconds of an offset \<^verbatim>\<open>+HH:MM\<close> or \<^verbatim>\<open>-HH:MM\<close>.\<close>

definition parse_offset :: "string \<Rightarrow> int option" where
  "parse_offset s =
     (if length s = 6 \<and> (s ! 0 = CHR ''+'' \<or> s ! 0 = CHR ''-'') \<and> s ! 3 = CHR '':'' then
        (case (digits (take 2 (drop 1 s)), digits (drop 4 s)) of
           (Some hh, Some mm) \<Rightarrow>
             (if hh < 24 \<and> mm < 60
              then Some ((if s ! 0 = CHR ''-'' then - 1 else 1) * (hh * 3600 + mm * 60))
              else None)
         | _ \<Rightarrow> None)
      else None)"

definition iso_parse :: parser where
  "iso_parse s =
     (if length s = 10 then
        (case parse_date s of
           None \<Rightarrow> None
         | Some d \<Rightarrow> Some (Datetime (d * us_per_day) None))
      else if length s = 19 then
        (case (parse_date (take 10 s), parse_hms (drop 11 s)) of
           (Some d, Some t) \<Rightarrow> Some (Datetime (d * us_per_day + t * 1000000) None)
         | _ \<Rightarrow> None)
      else if length s = 25 then
        (case (parse_date (take 10 s), parse_hms (take 8 (drop 11 s)), parse_offset (drop 19 s)) of
           (Some d, Some t, Some off) \<Rightarrow>
             Some (Datetime (d * us_per_day + t * 1000000) (Some off))
         | _ \<Rightarrow> None)
      else None)"

section \<open>Notions used in the statements\<close>

text \<open>
  What the loop body of \<^verbatim>\<open>analyze_all_tokens\<close> decides for a dictionary (\<open>None\<close>
  when it raises) and what it leaves in the dictionary.
\<close>

definition token_category :: "parser \<Rightarrow> int \<Rightarrow> int \<Rightarrow> pydict \<Rightarrow> category option" where
  "token_category parse threshold_date current_date token =
     (case analyze_token parse threshold_date current_date token of
        Inl e \<Rightarrow> None
      | Inr (c, token') \<Rightarrow> Some c)"

definition token_update :: "parser \<Rightarrow> int \<Rightarrow> int \<Rightarrow> pydict \<Rightarrow> pydict" where
  "token_update parse threshold_date current_date token =
     (case analyze_token parse threshold_date current_date token of
        Inl e \<Rightarrow> token
      | Inr (c, token') \<Rightarrow> token')"

text \<open>The \<^verbatim>\<open>expires_at\<close> of the dictionary is absent, falsy or a string.\<close>

definition expiry_well_typed :: "pydict \<Rightarrow> bool" where
  "expiry_well_typed token =
     (case dict_get token ''expires_at'' of PStr s \<Rightarrow> True | v \<Rightarrow> \<not> truthy v)"

text \<open>\<^verbatim>\<open>now + timedelta(days=days_threshold)\<close> is a \<^verbatim>\<open>datetime\<close>.\<close>

definition threshold_representable :: "int \<Rightarrow> int \<Rightarrow> bool" where
  "threshold_representable now days_threshold =
     (- 999999999 \<le> days_threshold \<and> days_threshold \<le> 999999999 \<and>
      0 \<le> now + days_threshold * us_per_day \<and> now + days_threshold * us_per_day < max_us)"

text \<open>
  The wall-clock instant that \<^verbatim>\<open>expires_at\<close> is read as, when it is a non-empty string
  that the parser accepts.
\<close>

definition parsed_expiry :: "parser \<Rightarrow> pydict \<Rightarrow> int option" where
  "parsed_expiry parse token =
     (case dict_get token ''expires_at'' of
        PStr s \<Rightarrow>
          (if s = [] then None
           else (case parse (replace_Z s) of
                   None \<Rightarrow> None
                 | Some d \<Rightarrow> Some (wall_us (replace_tzinfo_None d))))
      | _ \<Rightarrow> None)"

text \<open>
  The references that \<^verbatim>\<open>check_token_expiration\<close> returns, and the \<^verbatim>\<open>expired\<close> and
  \<^verbatim>\<open>expiring_soon\<close> lists of an analysis (\<open>None\<close> when the call raises).
\<close>

definition returned_tokens :: "py_error + (addr list \<times> heap) \<Rightarrow> addr list option" where
  "returned_tokens res = (case res of Inl e \<Rightarrow> None | Inr (ts, h) \<Rightarrow> Some ts)"

definition problem_tokens :: "py_error + (analysis \<times> heap) \<Rightarrow> addr list option" where
  "problem_tokens res =
     (case res of Inl e \<Rightarrow> None | Inr (r, h) \<Rightarrow> Some (expired r @ expiring_soon r))"

text \<open>The exception a call ends with, if any.\<close>

definition raised :: "py_error + 'a \<Rightarrow> py_error option" where
  "raised res = (case res of Inl e \<Rightarrow> Some e | Inr x \<Rightarrow> None)"

section \<open>Data for the examples\<close>

text \<open>
  Nine token dictionaries at the references \<open>0\<close> to \<open>8\<close>, and the instant
  2024-01-01T00:00:00.
\<close>

definition example_now :: int where
  "example_now = 63839664000000000"

definition example_heap :: heap where
  "example_heap =
     (\<lambda>a. [])
       (0 := [(''name'', PStr ''ci''), (''expires_at'', PStr ''2024-01-08T00:00:00'')],
        1 := [(''name'', PStr ''deploy''), (''expires_at'', PStr ''2024-01-09T00:00:00'')],
        2 := [(''name'', PStr ''old''), (''expires_at'', PStr ''2023-12-31T00:00:00'')],
        3 := [(''name'', PStr ''bot'')],
        4 := [(''name'', PStr ''broken''), (''expires_at'', PStr ''not-a-date'')],
        5 := [(''name'', PStr ''blank''), (''expires_at'', PStr [])],
        6 := [(''name'', PStr ''today''), (''expires_at'', PStr ''2024-01-01T18:00:00Z'')],
        7 := [(''name'', PStr ''typed''), (''expires_at'', PInt 20240101)],
        8 := [(''name'', PStr ''null''), (''expires_at'', PNone)])"

text \<open>Three analyses, and the empty accumulator that \<^verbatim>\<open>run_monitoring\<close> starts from.\<close>

definition empty_analysis :: analysis where
  "empty_analysis =
     \<lparr>expiring_soon = [], expired = [], healthy = [], no_expiration = [], total_count = 0\<rparr>"

definition example_batch_A :: analysis where
  "example_batch_A =
     \<lparr>expiring_soon = [0, 6], expired = [2], healthy = [4], no_expiration = [3],
      total_count = 5\<rparr>"

definition example_batch_B :: analysis where
  "example_batch_B =
     \<lparr>expiring_soon = [], expired = [], healthy = [10], no_expiration = [5, 8],
      total_count = 3\<rparr>"

definition example_batch_C :: analysis where
  "example_batch_C =
     \<lparr>expiring_soon = [11], expired = [12], healthy = [], no_expiration = [],
      total_count = 2\<rparr>"

definition example_project :: pydict where
  "example_project =
     [(''id'', PInt 42), (''name'', PStr ''infra''),
      (''path_with_namespace'', PStr ''ops/infra'')]"

definition example_group :: pydict where
  "example_group = [(''id'', PInt 7), (''name'', PStr ''ops'')]"

section \<open>Dictionaries and the loop body\<close>

lemma map_of_dict_set: "map_of (dict_set k v d) k' = (if k' = k then Some v else map_of d k')"
  by (induction d) auto

lemma dict_get_dict_set: "dict_get (dict_set k v d) k' = (if k' = k then v else dict_get d k')"
  by (simp add: dict_get_def map_of_dict_set)

lemma dict_set_same: "map_of d k = Some v \<Longrightarrow> dict_set k v d = d"
  by (induction d) (auto split: if_splits)

lemma analyze_token_cases:
  "analyze_token parse td cd t =
     (if \<not> truthy (dict_get t ''expires_at'') then
        Inr (NoExpiration, dict_set ''days_until_expiry'' (PStr ''Never'')
               (dict_set ''status'' (PStr ''No Expiration'') t))
      else if \<not> expiry_well_typed t then Inl AttributeError
      else case parse (replace_Z (case dict_get t ''expires_at'' of PStr s \<Rightarrow> s | _ \<Rightarrow> [])) of
        None \<Rightarrow> Inr (Healthy, dict_set ''days_until_expiry'' (PStr ''Unknown'')
                         (dict_set ''status'' (PStr ''Error'') t))
      | Some d \<Rightarrow>
         (if wall_us d \<le> cd then
            Inr (Expired, dict_set ''status'' (PStr ''Expired'')
                  (dict_set ''days_until_expiry'' (PInt (days_between (wall_us d) cd)) t))
          else if wall_us d \<le> td then
            Inr (ExpiringSoon, dict_set ''status'' (PStr ''Expiring Soon'')
                  (dict_set ''days_until_expiry'' (PInt (days_between (wall_us d) cd)) t))
          else
            Inr (Healthy, dict_set ''status'' (PStr ''Healthy'')
                  (dict_set ''days_until_expiry'' (PInt (days_between (wall_us d) cd)) t))))"
  by (auto simp: analyze_token_def expiry_well_typed_def replace_tzinfo_None_def Let_def
      split: pyval.splits option.splits)

lemma analyze_token_expires_at:
  "analyze_token parse td cd t = Inr (c, t') \<Longrightarrow> dict_get t' ''expires_at'' = dict_get t ''expires_at''"
  by (auto simp: analyze_token_cases dict_get_dict_set split: if_splits option.splits)

lemma analyze_token_idem:
  "analyze_token parse td cd t = Inr (c, t') \<Longrightarrow> analyze_token parse td cd t' = Inr (c, t')"
  apply (frule analyze_token_expires_at)
  apply (auto simp: analyze_token_cases expiry_well_typed_def dict_get_dict_set map_of_dict_set dict_set_same split: if_splits option.splits)
  done

lemma token_category_Some: "token_category parse td cd t \<noteq> None \<longleftrightarrow> expiry_well_typed t"
  by (auto simp: token_category_def analyze_token_cases expiry_well_typed_def
      split: option.splits pyval.splits)

lemma analyze_token_split:
  "analyze_token parse td cd t = Inr (c, t') \<longleftrightarrow>
     token_category parse td cd t = Some c \<and> token_update parse td cd t = t'"
  by (auto simp: token_category_def token_update_def split: sum.splits)

lemma bucket_bucket_append:
  "bucket c' (bucket_append c a r) = bucket c' r @ (if c' = c then [a] else [])"
  by (cases c; cases c') simp_all

lemma total_count_bucket_append: "total_count (bucket_append c a r) = total_count r"
  by (cases c) simp_all

lemma analyze_token_inv:
  assumes "hc a = h0 a \<or> hc a = token_update parse td cd (h0 a)"
  shows "analyze_token parse td cd (hc a) = analyze_token parse td cd (h0 a)"
proof (cases "analyze_token parse td cd (h0 a)")
  case (Inl e)
  then have "token_update parse td cd (h0 a) = h0 a" by (simp add: token_update_def)
  with assms show ?thesis by auto
next
  case (Inr p)
  obtain c t' where p: "p = (c, t')" by (cases p)
  with Inr have u: "token_update parse td cd (h0 a) = t'" by (simp add: token_update_def)
  from Inr p have "analyze_token parse td cd t' = Inr (c, t')" by (simp add: analyze_token_idem)
  with assms u Inr p show ?thesis by auto
qed

lemma analyze_loop_char:
  assumes "\<forall>a. hc a = h0 a \<or> hc a = token_update parse td cd (h0 a)"
    and "\<forall>a\<in>set as. expiry_well_typed (h0 a)"
  shows "\<exists>r' h'. analyze_loop parse td cd as (r, hc) = Inr (r', h') \<and>
           (\<forall>c. bucket c r' = bucket c r @ filter (\<lambda>a. token_category parse td cd (h0 a) = Some c) as) \<and>
           total_count r' = total_count r \<and>
           (\<forall>a. h' a = (if a \<in> set as then token_update parse td cd (h0 a) else hc a))"
  using assms
proof (induction as arbitrary: r hc)
  case Nil
  then show ?case by simp
next
  case (Cons a as)
  from Cons.prems(2) have "token_category parse td cd (h0 a) \<noteq> None"
    using token_category_Some [of parse td cd "h0 a"] by simp
  then obtain c where c: "token_category parse td cd (h0 a) = Some c" by auto
  define t' where "t' = token_update parse td cd (h0 a)"
  from c t'_def have "analyze_token parse td cd (h0 a) = Inr (c, t')"
    by (simp add: analyze_token_split)
  moreover from Cons.prems(1) have "hc a = h0 a \<or> hc a = token_update parse td cd (h0 a)"
    by blast
  ultimately have step: "analyze_token parse td cd (hc a) = Inr (c, t')"
    using analyze_token_inv [of hc a h0 parse td cd] by simp
  have inv: "\<forall>b. (hc(a := t')) b = h0 b \<or> (hc(a := t')) b = token_update parse td cd (h0 b)"
    using Cons.prems(1) t'_def by auto
  from Cons.prems(2) have wt: "\<forall>a\<in>set as. expiry_well_typed (h0 a)" by simp
  from Cons.IH [OF inv wt, of "bucket_append c a r"]
  obtain r' h' where
    run: "analyze_loop parse td cd as (bucket_append c a r, hc(a := t')) = Inr (r', h')"
    and b: "\<forall>c'. bucket c' r' = bucket c' (bucket_append c a r) @
              filter (\<lambda>a. token_category parse td cd (h0 a) = Some c') as"
    and n: "total_count r' = total_count (bucket_append c a r)"
    and h: "\<forall>b. h' b = (if b \<in> set as then token_update parse td cd (h0 b) else (hc(a := t')) b)"
    by blast
  have "analyze_loop parse td cd (a # as) (r, hc) = Inr (r', h')"
    using step run by simp
  moreover have "\<forall>c'. bucket c' r' = bucket c' r @
      filter (\<lambda>a. token_category parse td cd (h0 a) = Some c') (a # as)"
    using b c by (simp add: bucket_bucket_append)
  moreover have "total_count r' = total_count r"
    using n by (simp add: total_count_bucket_append)
  moreover have "\<forall>b. h' b = (if b \<in> set (a # as) then token_update parse td cd (h0 b) else hc b)"
    using h t'_def by auto
  ultimately show ?case by blast
qed

lemma threshold_date_ok:
  "threshold_representable now thr \<Longrightarrow>
     timedelta_days thr = Inr (thr * us_per_day) \<and>
     datetime_add now (thr * us_per_day) = Inr (now + thr * us_per_day)"
  by (simp add: threshold_representable_def timedelta_days_def datetime_add_def)

lemma analyze_all_tokens_char:
  assumes "threshold_representable (clk 0) thr"
    and "\<forall>a\<in>set tokens. expiry_well_typed (h a)"
  shows "\<exists>r h'. analyze_all_tokens parse clk thr tokens h = Inr (r, h') \<and>
           (\<forall>c. bucket c r = filter (\<lambda>a. token_category parse (clk 0 + thr * us_per_day) (clk 1) (h a) = Some c) tokens) \<and>
           total_count r = length tokens \<and>
           (\<forall>a. h' a = (if a \<in> set tokens then token_update parse (clk 0 + thr * us_per_day) (clk 1) (h a) else h a))"
proof -
  let ?r0 = "\<lparr>expiring_soon = [], expired = [], healthy = [], no_expiration = [],
               total_count = length tokens\<rparr>"
  have inv: "\<forall>a. h a = h a \<or> h a = token_update parse (clk 0 + thr * us_per_day) (clk 1) (h a)"
    by simp
  from analyze_loop_char [OF inv assms(2), of ?r0]
  obtain r h' where
    run: "analyze_loop parse (clk 0 + thr * us_per_day) (clk 1) tokens (?r0, h) = Inr (r, h')"
    and b: "\<forall>c. bucket c r = bucket c ?r0 @
              filter (\<lambda>a. token_category parse (clk 0 + thr * us_per_day) (clk 1) (h a) = Some c) tokens"
    and n: "total_count r = total_count ?r0"
    and hh: "\<forall>a. h' a = (if a \<in> set tokens then token_update parse (clk 0 + thr * us_per_day) (clk 1) (h a) else h a)"
    by blast
  have b0: "\<And>c. bucket c ?r0 = []" by (case_tac c) simp_all
  have "analyze_all_tokens parse clk thr tokens h = Inr (r, h')"
    using threshold_date_ok [OF assms(1)] run by (simp add: analyze_all_tokens_def)
  with b n hh b0 show ?thesis by simp
qed

section \<open>Facts about the examples and about day counts\<close>

lemma example_heap_simps:
  "example_heap 0 = [(''name'', PStr ''ci''), (''expires_at'', PStr ''2024-01-08T00:00:00'')]"
  "example_heap 1 = [(''name'', PStr ''deploy''), (''expires_at'', PStr ''2024-01-09T00:00:00'')]"
  "example_heap (Suc 0) = [(''name'', PStr ''deploy''), (''expires_at'', PStr ''2024-01-09T00:00:00'')]"
  "example_heap 2 = [(''name'', PStr ''old''), (''expires_at'', PStr ''2023-12-31T00:00:00'')]"
  "example_heap 3 = [(''name'', PStr ''bot'')]"
  "example_heap 4 = [(''name'', PStr ''broken''), (''expires_at'', PStr ''not-a-date'')]"
  "example_heap 5 = [(''name'', PStr ''blank''), (''expires_at'', PStr [])]"
  "example_heap 6 = [(''name'', PStr ''today''), (''expires_at'', PStr ''2024-01-01T18:00:00Z'')]"
  "example_heap 7 = [(''name'', PStr ''typed''), (''expires_at'', PInt 20240101)]"
  "example_heap 8 = [(''name'', PStr ''null''), (''expires_at'', PNone)]"
  by (simp_all add: example_heap_def)

lemma example_parses:
  "iso_parse (replace_Z ''2024-01-08T00:00:00'') = Some (Datetime 63840268800000000 None)"
  "iso_parse (replace_Z ''2024-01-09T00:00:00'') = Some (Datetime 63840355200000000 None)"
  "iso_parse (replace_Z ''2023-12-31T00:00:00'') = Some (Datetime 63839577600000000 None)"
  "iso_parse (replace_Z ''not-a-date'') = None"
  "iso_parse (replace_Z ''2024-01-01T18:00:00Z'') = Some (Datetime 63839728800000000 (Some 0))"
  by code_simp+

lemma example_threshold: "threshold_representable example_now 7"
  by (simp add: threshold_representable_def example_now_def us_per_day_def max_us_def)

lemma days_between_floor:
  "days_between a b * us_per_day \<le> a - b \<and> a - b < (days_between a b + 1) * us_per_day"
proof -
  define q where "q = (a - b) div us_per_day"
  define m where "m = (a - b) mod us_per_day"
  have "0 \<le> m" "m < us_per_day" by (simp_all add: m_def us_per_day_def)
  moreover have "a - b = q * us_per_day + m" by (simp add: q_def m_def)
  ultimately have "q * us_per_day \<le> a - b \<and> a - b < (q + 1) * us_per_day"
    by (simp add: algebra_simps)
  then show ?thesis by (simp add: days_between_def q_def)
qed

lemma days_between_neg: "a < b \<Longrightarrow> days_between a b < 0"
  by (simp add: days_between_def us_per_day_def div_neg_pos_less0 neg_imp_zdiv_neg_iff)

lemma days_between_small: "0 \<le> a - b \<Longrightarrow> a - b < us_per_day \<Longrightarrow> days_between a b = 0"
  by (simp add: days_between_def)

section \<open>Permanent tokens\<close>

lemma analyze_all_tokens_token:
  assumes "threshold_representable (clk 0) thr"
    and "\<forall>b\<in>set tokens. expiry_well_typed (h b)"
    and "a \<in> set tokens"
    and "analyze_token parse (clk 0 + thr * us_per_day) (clk 1) (h a) = Inr (c, t')"
  shows "\<exists>r h'. analyze_all_tokens parse clk thr tokens h = Inr (r, h') \<and>
           a \<in> set (bucket c r) \<and> (\<forall>c'. c' \<noteq> c \<longrightarrow> a \<notin> set (bucket c' r)) \<and>
           h' a = t' \<and> total_count r = length tokens"
proof -
  from analyze_all_tokens_char [where clk = clk and thr = thr and tokens = tokens and h = h and parse = parse, OF assms(1,2)]
  obtain r h' where
    run: "analyze_all_tokens parse clk thr tokens h = Inr (r, h')"
    and b: "\<forall>c. bucket c r = filter (\<lambda>a. token_category parse (clk 0 + thr * us_per_day) (clk 1) (h a) = Some c) tokens"
    and n: "total_count r = length tokens"
    and hh: "\<forall>a. h' a = (if a \<in> set tokens then token_update parse (clk 0 + thr * us_per_day) (clk 1) (h a) else h a)"
    by blast
  from assms(4) have cat: "token_category parse (clk 0 + thr * us_per_day) (clk 1) (h a) = Some c"
    and upd: "token_update parse (clk 0 + thr * us_per_day) (clk 1) (h a) = t'"
    by (simp_all add: analyze_token_split)
  have "a \<in> set (bucket c r)" using b cat assms(3) by simp
  moreover have "\<forall>c'. c' \<noteq> c \<longrightarrow> a \<notin> set (bucket c' r)" using b cat by simp
  moreover have "h' a = t'" using hh upd assms(3) by simp
  ultimately show ?thesis using run n by blast
qed

lemma analyze_token_falsy:
  "\<not> truthy (dict_get token ''expires_at'') \<Longrightarrow>
     analyze_token parse td cd token =
       Inr (NoExpiration, dict_set ''days_until_expiry'' (PStr ''Never'')
              (dict_set ''status'' (PStr ''No Expiration'') token))"
  by (simp add: analyze_token_def)

lemma no_expiration_fields:
  "dict_get (dict_set ''days_until_expiry'' (PStr ''Never'')
       (dict_set ''status'' (PStr ''No Expiration'') token)) ''status'' = PStr ''No Expiration''"
  "dict_get (dict_set ''days_until_expiry'' (PStr ''Never'')
       (dict_set ''status'' (PStr ''No Expiration'') token)) ''days_until_expiry'' = PStr ''Never''"
  by (simp_all add: dict_get_dict_set)

lemma falsy_batch:
  assumes "\<not> truthy (dict_get (h a) ''expires_at'')"
    and "threshold_representable (clk 0) thr"
    and "\<forall>b\<in>set tokens. expiry_well_typed (h b)"
    and "a \<in> set tokens"
  shows "\<exists>r h'. analyze_all_tokens parse clk thr tokens h = Inr (r, h') \<and>
           a \<in> set (no_expiration r) \<and> a \<notin> set (expired r) \<and>
           a \<notin> set (expiring_soon r) \<and> a \<notin> set (healthy r) \<and>
           dict_get (h' a) ''status'' = PStr ''No Expiration'' \<and>
           dict_get (h' a) ''days_until_expiry'' = PStr ''Never''"
proof -
  from analyze_all_tokens_token [where clk = clk and thr = thr and tokens = tokens and h = h and parse = parse and a = a,
      OF assms(2,3,4) analyze_token_falsy [OF assms(1)]]
  obtain r h' where
    run: "analyze_all_tokens parse clk thr tokens h = Inr (r, h')"
    and i: "a \<in> set (bucket NoExpiration r)"
    and o: "\<forall>c'. c' \<noteq> NoExpiration \<longrightarrow> a \<notin> set (bucket c' r)"
    and hh: "h' a = dict_set ''days_until_expiry'' (PStr ''Never'')
              (dict_set ''status'' (PStr ''No Expiration'') (h a))"
    by blast
  from o [rule_format, of Expired] o [rule_format, of ExpiringSoon] o [rule_format, of Healthy]
  have "a \<notin> set (expired r)" "a \<notin> set (expiring_soon r)" "a \<notin> set (healthy r)"
    by simp_all
  with run i hh show ?thesis by (simp add: no_expiration_fields)
qed



text \<open>
  Claim C9. A token whose \<^verbatim>\<open>expires_at\<close> key is present with a falsy value (the empty
  string, \<^verbatim>\<open>None\<close>, \<open>0\<close>, \<^verbatim>\<open>False\<close>, an empty list or dictionary) is handled as
  one without the key: the loop body puts it into \<^verbatim>\<open>no_expiration\<close> with status
  \<^verbatim>\<open>No Expiration\<close> and \<^verbatim>\<open>days_until_expiry\<close> \<^verbatim>\<open>Never\<close>, for every parser,
  threshold date and current date, so the value is not parsed and the token does not
  take the error path. In every run of \<^verbatim>\<open>analyze_all_tokens\<close> that reaches its end
  the reference is in \<^verbatim>\<open>no_expiration\<close> and in no other list.
\<close>

theorem falsy_expiry_no_expiration:
  assumes "map_of token ''expires_at'' = Some v" and "\<not> truthy v"
  shows "(\<forall>parse threshold_date current_date.
            analyze_token parse threshold_date current_date token =
              Inr (NoExpiration,
                   dict_set ''days_until_expiry'' (PStr ''Never'')
                     (dict_set ''status'' (PStr ''No Expiration'') token))) \<and>
         (h a = token \<and> a \<in> set tokens \<and> threshold_representable (clk 0) days_threshold \<and>
          (\<forall>b\<in>set tokens. expiry_well_typed (h b)) \<longrightarrow>
            (\<exists>r h'. analyze_all_tokens parse clk days_threshold tokens h = Inr (r, h') \<and>
               a \<in> set (no_expiration r) \<and> a \<notin> set (expired r) \<and>
               a \<notin> set (expiring_soon r) \<and> a \<notin> set (healthy r) \<and>
               dict_get (h' a) ''status'' = PStr ''No Expiration'' \<and>
               dict_get (h' a) ''days_until_expiry'' = PStr ''Never''))"
proof -
  from assms have f: "\<not> truthy (dict_get token ''expires_at'')"
    by (simp add: dict_get_def)
  then show ?thesis
    using analyze_token_falsy [OF f] falsy_batch [of h a clk days_threshold tokens parse]
    by blast
qed

theorem falsy_expiry_no_expiration_witness:
  "map_of (example_heap 5) ''expires_at'' = Some (PStr []) \<and> \<not> truthy (PStr []) \<and>
   threshold_representable (fixed_clock example_now 0) 7 \<and>
   expiry_well_typed (example_heap 4) \<and> expiry_well_typed (example_heap 5) \<and>
   (\<exists>r h'. analyze_all_tokens iso_parse (fixed_clock example_now) 7 [4, 5] example_heap = Inr (r, h') \<and>
      5 \<in> set (no_expiration r) \<and> 5 \<notin> set (expired r) \<and>
      5 \<notin> set (expiring_soon r) \<and> 5 \<notin> set (healthy r) \<and>
      dict_get (h' 5) ''status'' = PStr ''No Expiration'' \<and>
      dict_get (h' 5) ''days_until_expiry'' = PStr ''Never'')"
proof -
  have a: "map_of (example_heap 5) ''expires_at'' = Some (PStr [])"
    by (simp add: example_heap_simps)
  have f: "\<not> truthy (PStr [])" by simp
  have t: "threshold_representable (fixed_clock example_now 0) 7"
    by (simp add: fixed_clock_def example_threshold)
  have w: "expiry_well_typed (example_heap 4)" "expiry_well_typed (example_heap 5)"
    by (simp_all add: example_heap_simps expiry_well_typed_def dict_get_def)
  then have wt: "\<forall>b\<in>set [4, 5]. expiry_well_typed (example_heap b)" by simp
  from falsy_expiry_no_expiration [OF a f, of example_heap 5 "[4, 5]" "fixed_clock example_now" 7 iso_parse]
    t wt a w
  show ?thesis by simp
qed

lemma mset_filter_categories:
  "\<forall>a\<in>set xs. f a \<noteq> None \<Longrightarrow>
     mset (filter (\<lambda>a. f a = Some Expired) xs) + mset (filter (\<lambda>a. f a = Some ExpiringSoon) xs) +
     mset (filter (\<lambda>a. f a = Some Healthy) xs) + mset (filter (\<lambda>a. f a = Some NoExpiration) xs) =
     mset xs"
proof (induction xs)
  case Nil
  then show ?case by simp
next
  case (Cons a xs)
  then obtain c where c: "f a = Some c" by auto
  from Cons have "mset (filter (\<lambda>a. f a = Some Expired) xs) + mset (filter (\<lambda>a. f a = Some ExpiringSoon) xs) +
     mset (filter (\<lambda>a. f a = Some Healthy) xs) + mset (filter (\<lambda>a. f a = Some NoExpiration) xs) =
     mset xs" by simp
  with c show ?case by (cases c) simp_all
qed

lemma analyze_all_tokens_partition:
  assumes "threshold_representable (clk 0) thr"
    and "\<forall>b\<in>set tokens. expiry_well_typed (h b)"
  shows "\<exists>r h'. analyze_all_tokens parse clk thr tokens h = Inr (r, h') \<and>
           mset (all_tokens r) = mset tokens \<and> total_count r = length tokens \<and>
           (\<forall>a\<in>set tokens. \<exists>c. a \<in> set (bucket c r) \<and> (\<forall>c'. c' \<noteq> c \<longrightarrow> a \<notin> set (bucket c' r))) \<and>
           (\<forall>c. set (bucket c r) \<subseteq> set tokens)"
proof -
  let ?f = "\<lambda>a. token_category parse (clk 0 + thr * us_per_day) (clk 1) (h a)"
  from analyze_all_tokens_char [where clk = clk and thr = thr and tokens = tokens and h = h and parse = parse, OF assms]
  obtain r h' where
    run: "analyze_all_tokens parse clk thr tokens h = Inr (r, h')"
    and b: "\<forall>c. bucket c r = filter (\<lambda>a. ?f a = Some c) tokens"
    and n: "total_count r = length tokens"
    by blast
  have some: "\<forall>a\<in>set tokens. ?f a \<noteq> None"
    using assms(2) token_category_Some by blast
  from b [rule_format, of Expired] b [rule_format, of ExpiringSoon]
    b [rule_format, of Healthy] b [rule_format, of NoExpiration]
  have "mset (all_tokens r) =
     mset (filter (\<lambda>a. ?f a = Some Expired) tokens) + mset (filter (\<lambda>a. ?f a = Some ExpiringSoon) tokens) +
     mset (filter (\<lambda>a. ?f a = Some Healthy) tokens) + mset (filter (\<lambda>a. ?f a = Some NoExpiration) tokens)"
    by (simp add: all_tokens_def)
  with mset_filter_categories [OF some] have m: "mset (all_tokens r) = mset tokens" by simp
  have one: "\<forall>a\<in>set tokens. \<exists>c. a \<in> set (bucket c r) \<and> (\<forall>c'. c' \<noteq> c \<longrightarrow> a \<notin> set (bucket c' r))"
  proof
    fix a assume a: "a \<in> set tokens"
    with some obtain c where "?f a = Some c" by auto
    with a b have "a \<in> set (bucket c r) \<and> (\<forall>c'. c' \<noteq> c \<longrightarrow> a \<notin> set (bucket c' r))" by simp
    then show "\<exists>c. a \<in> set (bucket c r) \<and> (\<forall>c'. c' \<noteq> c \<longrightarrow> a \<notin> set (bucket c' r))" ..
  qed
  have "\<forall>c. set (bucket c r) \<subseteq> set tokens" using b by auto
  with run m n one show ?thesis by blast
qed

section \<open>Tokens with an expiry string\<close>


lemma analyze_token_parsed:
  assumes "dict_get token ''expires_at'' = PStr s" and "s \<noteq> []" and "parse (replace_Z s) = Some d"
  shows "analyze_token parse td cd token =
           Inr (if wall_us d \<le> cd then Expired
                else if wall_us d \<le> td then ExpiringSoon else Healthy,
                dict_set ''status''
                  (PStr (if wall_us d \<le> cd then ''Expired''
                         else if wall_us d \<le> td then ''Expiring Soon'' else ''Healthy''))
                  (dict_set ''days_until_expiry'' (PInt (days_between (wall_us d) cd)) token))"
  using assms by (simp add: analyze_token_def replace_tzinfo_None_def Let_def)



text \<open>
  Claim C1. For a token whose \<^verbatim>\<open>expires_at\<close> is a non-empty string that the parser
  reads as the instant \<open>e\<close>, the loop body tries the rules in order: \<open>e \<le> current_date\<close>
  gives \<^verbatim>\<open>expired\<close>, also when \<open>e \<le> threshold_date\<close> holds as well; otherwise
  \<open>e \<le> threshold_date\<close> (equality included) gives \<^verbatim>\<open>expiring_soon\<close>; otherwise
  \<^verbatim>\<open>healthy\<close>. In a run of \<^verbatim>\<open>analyze_all_tokens\<close> the current date is the second
  reading of the clock and the threshold date is the first reading plus
  \<^verbatim>\<open>days_threshold\<close> days; for an evaluation instant \<open>now\<close> both readings are \<open>now\<close>.
  The reference of the token is in the list the rules name and in no other.
\<close>

theorem classification_first_match:
  assumes "dict_get token ''expires_at'' = PStr s" and "s \<noteq> []" and "parse (replace_Z s) = Some d"
  shows "(\<forall>threshold_date current_date. \<exists>token'.
            analyze_token parse threshold_date current_date token =
              Inr (if wall_us d \<le> current_date then Expired
                   else if wall_us d \<le> threshold_date then ExpiringSoon else Healthy, token')) \<and>
         (h a = token \<and> a \<in> set tokens \<and> threshold_representable (clk 0) days_threshold \<and>
          (\<forall>b\<in>set tokens. expiry_well_typed (h b)) \<longrightarrow>
            (\<exists>r h'. analyze_all_tokens parse clk days_threshold tokens h = Inr (r, h') \<and>
               (a \<in> set (expired r) \<longleftrightarrow> wall_us d \<le> clk 1) \<and>
               (a \<in> set (expiring_soon r) \<longleftrightarrow>
                  clk 1 < wall_us d \<and> wall_us d \<le> clk 0 + days_threshold * us_per_day) \<and>
               (a \<in> set (healthy r) \<longleftrightarrow>
                  clk 1 < wall_us d \<and> clk 0 + days_threshold * us_per_day < wall_us d) \<and>
               a \<notin> set (no_expiration r)))"
proof (intro conjI allI impI)
  fix threshold_date current_date
  show "\<exists>token'. analyze_token parse threshold_date current_date token =
          Inr (if wall_us d \<le> current_date then Expired
               else if wall_us d \<le> threshold_date then ExpiringSoon else Healthy, token')"
    using analyze_token_parsed [where parse = parse, OF assms] by blast
next
  assume hyp: "h a = token \<and> a \<in> set tokens \<and> threshold_representable (clk 0) days_threshold \<and>
          (\<forall>b\<in>set tokens. expiry_well_typed (h b))"
  then have ha: "h a = token" and a: "a \<in> set tokens"
    and t: "threshold_representable (clk 0) days_threshold"
    and wt: "\<forall>b\<in>set tokens. expiry_well_typed (h b)" by simp_all
  let ?td = "clk 0 + days_threshold * us_per_day"
  let ?c = "if wall_us d \<le> clk 1 then Expired
            else if wall_us d \<le> ?td then ExpiringSoon else Healthy"
  from analyze_token_parsed [where parse = parse and td = ?td and cd = "clk 1", OF assms] ha
  obtain t' where step: "analyze_token parse ?td (clk 1) (h a) = Inr (?c, t')" by simp
  from analyze_all_tokens_token [where clk = clk and thr = days_threshold and tokens = tokens
      and h = h and parse = parse and a = a, OF t wt a step]
  obtain r h' where
    run: "analyze_all_tokens parse clk days_threshold tokens h = Inr (r, h')"
    and i: "a \<in> set (bucket ?c r)"
    and o: "\<forall>c'. c' \<noteq> ?c \<longrightarrow> a \<notin> set (bucket c' r)"
    by blast
  have "(a \<in> set (expired r) \<longleftrightarrow> wall_us d \<le> clk 1) \<and>
        (a \<in> set (expiring_soon r) \<longleftrightarrow> clk 1 < wall_us d \<and> wall_us d \<le> ?td) \<and>
        (a \<in> set (healthy r) \<longleftrightarrow> clk 1 < wall_us d \<and> ?td < wall_us d) \<and>
        a \<notin> set (no_expiration r)"
    using i o [rule_format, of Expired] o [rule_format, of ExpiringSoon]
      o [rule_format, of Healthy] o [rule_format, of NoExpiration]
    by (auto split: if_splits)
  with run
  show "\<exists>r h'. analyze_all_tokens parse clk days_threshold tokens h = Inr (r, h') \<and>
               (a \<in> set (expired r) \<longleftrightarrow> wall_us d \<le> clk 1) \<and>
               (a \<in> set (expiring_soon r) \<longleftrightarrow>
                  clk 1 < wall_us d \<and> wall_us d \<le> clk 0 + days_threshold * us_per_day) \<and>
               (a \<in> set (healthy r) \<longleftrightarrow>
                  clk 1 < wall_us d \<and> clk 0 + days_threshold * us_per_day < wall_us d) \<and>
               a \<notin> set (no_expiration r)"
    by blast
qed

theorem classification_first_match_witness:
  "dict_get (example_heap 0) ''expires_at'' = PStr ''2024-01-08T00:00:00'' \<and>
   iso_parse (replace_Z ''2024-01-08T00:00:00'') = Some (Datetime (example_now + 7 * us_per_day) None) \<and>
   iso_parse (replace_Z ''2024-01-09T00:00:00'') = Some (Datetime (example_now + 8 * us_per_day) None) \<and>
   iso_parse (replace_Z ''2023-12-31T00:00:00'') = Some (Datetime (example_now - us_per_day) None) \<and>
   threshold_representable (fixed_clock example_now 0) 7 \<and>
   expiry_well_typed (example_heap 0) \<and> expiry_well_typed (example_heap 1) \<and>
   expiry_well_typed (example_heap 2) \<and>
   (\<exists>r h'. analyze_all_tokens iso_parse (fixed_clock example_now) 7 [0, 1, 2] example_heap = Inr (r, h') \<and>
      0 \<in> set (expiring_soon r) \<and> 0 \<notin> set (expired r) \<and> 0 \<notin> set (healthy r) \<and>
      1 \<in> set (healthy r) \<and> 1 \<notin> set (expired r) \<and> 1 \<notin> set (expiring_soon r) \<and>
      2 \<in> set (expired r) \<and> 2 \<notin> set (expiring_soon r) \<and> 2 \<notin> set (healthy r))"
proof -
  have e0: "dict_get (example_heap 0) ''expires_at'' = PStr ''2024-01-08T00:00:00''"
    and e1: "dict_get (example_heap 1) ''expires_at'' = PStr ''2024-01-09T00:00:00''"
    and e2: "dict_get (example_heap 2) ''expires_at'' = PStr ''2023-12-31T00:00:00''"
    by (simp_all add: example_heap_simps dict_get_def)
  have s0: "''2024-01-08T00:00:00'' \<noteq> []" and s1: "''2024-01-09T00:00:00'' \<noteq> []"
    and s2: "''2023-12-31T00:00:00'' \<noteq> []" by simp_all
  have p0: "iso_parse (replace_Z ''2024-01-08T00:00:00'') = Some (Datetime (example_now + 7 * us_per_day) None)"
    and p1: "iso_parse (replace_Z ''2024-01-09T00:00:00'') = Some (Datetime (example_now + 8 * us_per_day) None)"
    and p2: "iso_parse (replace_Z ''2023-12-31T00:00:00'') = Some (Datetime (example_now - us_per_day) None)"
    by (simp_all add: example_parses example_now_def us_per_day_def)
  have t: "threshold_representable (fixed_clock example_now 0) 7"
    by (simp add: fixed_clock_def example_threshold)
  have w: "expiry_well_typed (example_heap 0)" "expiry_well_typed (example_heap 1)"
    "expiry_well_typed (example_heap 2)"
    by (simp_all add: example_heap_simps expiry_well_typed_def dict_get_def)
  then have wt: "\<forall>b\<in>set [0, 1, 2]. expiry_well_typed (example_heap b)" by simp
  have d: "(0::int) < us_per_day" by (simp add: us_per_day_def)
  from classification_first_match [where parse = iso_parse and h = example_heap and a = 0
      and tokens = "[0, 1, 2]" and clk = "fixed_clock example_now" and days_threshold = 7, OF e0 s0 p0]
    t wt d
  obtain r h' where
    run: "analyze_all_tokens iso_parse (fixed_clock example_now) 7 [0, 1, 2] example_heap = Inr (r, h')"
    and r0: "0 \<in> set (expiring_soon r)" "0 \<notin> set (expired r)" "0 \<notin> set (healthy r)"
    by (auto simp: fixed_clock_def)
  from classification_first_match [where parse = iso_parse and h = example_heap and a = 1
      and tokens = "[0, 1, 2]" and clk = "fixed_clock example_now" and days_threshold = 7, OF e1 s1 p1]
    t wt d run
  have r1: "1 \<in> set (healthy r)" "1 \<notin> set (expired r)" "1 \<notin> set (expiring_soon r)"
    by (auto simp: fixed_clock_def)
  from classification_first_match [where parse = iso_parse and h = example_heap and a = 2
      and tokens = "[0, 1, 2]" and clk = "fixed_clock example_now" and days_threshold = 7, OF e2 s2 p2]
    t wt d run
  have r2: "2 \<in> set (expired r)" "2 \<notin> set (expiring_soon r)" "2 \<notin> set (healthy r)"
    by (auto simp: fixed_clock_def)
  from e0 p0 p1 p2 t w run r0 r1 r2 show ?thesis by blast
qed

lemma token_update_days:
  "expiry_well_typed t \<Longrightarrow>
     map_of (token_update parse td cd t) ''days_until_expiry'' =
       Some (if \<not> truthy (dict_get t ''expires_at'') then PStr ''Never''
             else case parsed_expiry parse t of
                    None \<Rightarrow> PStr ''Unknown''
                  | Some e \<Rightarrow> PInt (days_between e cd))"
  by (auto simp: token_update_def analyze_token_def parsed_expiry_def expiry_well_typed_def
      map_of_dict_set Let_def split: pyval.splits option.splits)

text \<open>
  Claim C4. For a token whose \<^verbatim>\<open>expires_at\<close> is a non-empty string read as the instant
  \<open>e\<close>, the loop body sets \<^verbatim>\<open>days_until_expiry\<close> to the number of whole days of
  \<open>e - current_date\<close>, rounded towards minus infinity: it is the integer \<open>n\<close> with
  \<open>n\<close> days \<open>\<le> e - current_date <\<close> \<open>n + 1\<close> days, so 18 hours give \<open>0\<close> and every
  \<open>e\<close> before the current date gives a negative number. After a run of
  \<^verbatim>\<open>analyze_all_tokens\<close> every dictionary of the batch has the field: \<^verbatim>\<open>Never\<close> for a
  falsy \<^verbatim>\<open>expires_at\<close>, \<^verbatim>\<open>Unknown\<close> for a string that is not read, the number
  otherwise, counted from the second reading of the clock.
\<close>

theorem days_until_expiry_floor:
  "(dict_get token ''expires_at'' = PStr s \<and> s \<noteq> [] \<and> parse (replace_Z s) = Some d \<longrightarrow>
      (\<forall>threshold_date current_date. \<exists>c token'.
          analyze_token parse threshold_date current_date token = Inr (c, token') \<and>
          dict_get token' ''days_until_expiry'' = PInt (days_between (wall_us d) current_date)) \<and>
      (\<forall>current_date.
          days_between (wall_us d) current_date * us_per_day \<le> wall_us d - current_date \<and>
          wall_us d - current_date < (days_between (wall_us d) current_date + 1) * us_per_day \<and>
          (wall_us d < current_date \<longrightarrow> days_between (wall_us d) current_date < 0) \<and>
          (wall_us d - current_date = 18 * 3600 * 1000000 \<longrightarrow>
             days_between (wall_us d) current_date = 0))) \<and>
   (threshold_representable (clk 0) days_threshold \<and>
    (\<forall>b\<in>set tokens. expiry_well_typed (h b)) \<longrightarrow>
      (\<exists>r h'. analyze_all_tokens parse clk days_threshold tokens h = Inr (r, h') \<and>
         (\<forall>a\<in>set tokens.
            map_of (h' a) ''days_until_expiry'' =
              Some (if \<not> truthy (dict_get (h a) ''expires_at'') then PStr ''Never''
                    else case parsed_expiry parse (h a) of
                           None \<Rightarrow> PStr ''Unknown''
                         | Some e \<Rightarrow> PInt (days_between e (clk 1))))))"
proof (intro conjI impI allI)
  fix threshold_date current_date
  assume p: "dict_get token ''expires_at'' = PStr s \<and> s \<noteq> [] \<and> parse (replace_Z s) = Some d"
  then show "\<exists>c token'.
          analyze_token parse threshold_date current_date token = Inr (c, token') \<and>
          dict_get token' ''days_until_expiry'' = PInt (days_between (wall_us d) current_date)"
    using analyze_token_parsed [where parse = parse and token = token and s = s and d = d
        and td = threshold_date and cd = current_date]
    by (simp add: dict_get_dict_set)
next
  fix current_date
  show "days_between (wall_us d) current_date * us_per_day \<le> wall_us d - current_date"
    and "wall_us d - current_date < (days_between (wall_us d) current_date + 1) * us_per_day"
    using days_between_floor [of "wall_us d" current_date] by simp_all
next
  fix current_date
  assume "wall_us d < current_date"
  then show "days_between (wall_us d) current_date < 0" by (rule days_between_neg)
next
  fix current_date
  assume "wall_us d - current_date = 18 * 3600 * 1000000"
  then show "days_between (wall_us d) current_date = 0"
    by (simp add: days_between_def us_per_day_def)
next
  assume "threshold_representable (clk 0) days_threshold \<and>
    (\<forall>b\<in>set tokens. expiry_well_typed (h b))"
  then have t: "threshold_representable (clk 0) days_threshold"
    and wt: "\<forall>b\<in>set tokens. expiry_well_typed (h b)" by simp_all
  from analyze_all_tokens_char [where clk = clk and thr = days_threshold and tokens = tokens
      and h = h and parse = parse, OF t wt]
  obtain r h' where
    run: "analyze_all_tokens parse clk days_threshold tokens h = Inr (r, h')"
    and hh: "\<forall>a. h' a = (if a \<in> set tokens
               then token_update parse (clk 0 + days_threshold * us_per_day) (clk 1) (h a) else h a)"
    by blast
  have "\<forall>a\<in>set tokens.
            map_of (h' a) ''days_until_expiry'' =
              Some (if \<not> truthy (dict_get (h a) ''expires_at'') then PStr ''Never''
                    else case parsed_expiry parse (h a) of
                           None \<Rightarrow> PStr ''Unknown''
                         | Some e \<Rightarrow> PInt (days_between e (clk 1)))"
  proof
    fix a assume a: "a \<in> set tokens"
    with hh have eq: "h' a = token_update parse (clk 0 + days_threshold * us_per_day) (clk 1) (h a)"
      by simp
    from wt a have w: "expiry_well_typed (h a)" by blast
    show "map_of (h' a) ''days_until_expiry'' =
              Some (if \<not> truthy (dict_get (h a) ''expires_at'') then PStr ''Never''
                    else case parsed_expiry parse (h a) of
                           None \<Rightarrow> PStr ''Unknown''
                         | Some e \<Rightarrow> PInt (days_between e (clk 1)))"
      unfolding eq by (rule token_update_days [OF w])
  qed
  with run show "\<exists>r h'. analyze_all_tokens parse clk days_threshold tokens h = Inr (r, h') \<and>
         (\<forall>a\<in>set tokens.
            map_of (h' a) ''days_until_expiry'' =
              Some (if \<not> truthy (dict_get (h a) ''expires_at'') then PStr ''Never''
                    else case parsed_expiry parse (h a) of
                           None \<Rightarrow> PStr ''Unknown''
                         | Some e \<Rightarrow> PInt (days_between e (clk 1))))"
    by blast
qed

theorem days_until_expiry_floor_witness:
  "dict_get (example_heap 6) ''expires_at'' = PStr ''2024-01-01T18:00:00Z'' \<and>
   iso_parse (replace_Z ''2024-01-01T18:00:00Z'') =
     Some (Datetime (example_now + 18 * 3600 * 1000000) (Some 0)) \<and>
   days_between (example_now + 18 * 3600 * 1000000) example_now = 0 \<and>
   days_between (example_now - us_per_day) example_now < 0 \<and>
   threshold_representable (fixed_clock example_now 0) 7 \<and>
   expiry_well_typed (example_heap 2) \<and> expiry_well_typed (example_heap 3) \<and>
   expiry_well_typed (example_heap 4) \<and> expiry_well_typed (example_heap 6) \<and>
   (\<exists>r h'. analyze_all_tokens iso_parse (fixed_clock example_now) 7 [2, 3, 4, 6] example_heap = Inr (r, h') \<and>
      map_of (h' 2) ''days_until_expiry'' = Some (PInt (- 1)) \<and>
      map_of (h' 3) ''days_until_expiry'' = Some (PStr ''Never'') \<and>
      map_of (h' 4) ''days_until_expiry'' = Some (PStr ''Unknown'') \<and>
      map_of (h' 6) ''days_until_expiry'' = Some (PInt 0))"
proof -
  let ?d = "Datetime (example_now + 18 * 3600 * 1000000) (Some 0)"
  have e: "dict_get (example_heap 6) ''expires_at'' = PStr ''2024-01-01T18:00:00Z''"
    by (simp add: example_heap_simps dict_get_def)
  have s: "''2024-01-01T18:00:00Z'' \<noteq> []" by simp
  have p: "iso_parse (replace_Z ''2024-01-01T18:00:00Z'') = Some ?d"
    by (simp add: example_parses example_now_def)
  have t: "threshold_representable (fixed_clock example_now 0) 7"
    by (simp add: fixed_clock_def example_threshold)
  have w: "expiry_well_typed (example_heap 2)" "expiry_well_typed (example_heap 3)"
    "expiry_well_typed (example_heap 4)" "expiry_well_typed (example_heap 6)"
    by (simp_all add: example_heap_simps expiry_well_typed_def dict_get_def)
  then have wt: "\<forall>b\<in>set [2, 3, 4, 6]. expiry_well_typed (example_heap b)" by simp
  have pe: "parsed_expiry iso_parse (example_heap 2) = Some (example_now - us_per_day)"
    "parsed_expiry iso_parse (example_heap 4) = None"
    "parsed_expiry iso_parse (example_heap 6) = Some (example_now + 18 * 3600 * 1000000)"
    by (simp_all add: parsed_expiry_def example_heap_simps dict_get_def example_parses
        replace_tzinfo_None_def example_now_def us_per_day_def)
  note inst = days_until_expiry_floor [where parse = iso_parse and token = "example_heap 6"
      and s = "''2024-01-01T18:00:00Z''" and d = ?d and h = example_heap
      and tokens = "[2, 3, 4, 6]" and clk = "fixed_clock example_now" and days_threshold = 7]
  from inst e s p have "days_between (wall_us ?d) example_now = 0"
    by simp
  then have z: "days_between (example_now + 18 * 3600 * 1000000) example_now = 0" by simp
  have n: "days_between (example_now - us_per_day) example_now = - 1"
    by (simp add: days_between_def us_per_day_def)
  from inst t wt
  obtain r h' where
    run: "analyze_all_tokens iso_parse (fixed_clock example_now) 7 [2, 3, 4, 6] example_heap = Inr (r, h')"
    and f: "\<forall>a\<in>set [2, 3, 4, 6].
            map_of (h' a) ''days_until_expiry'' =
              Some (if \<not> truthy (dict_get (example_heap a) ''expires_at'') then PStr ''Never''
                    else case parsed_expiry iso_parse (example_heap a) of
                           None \<Rightarrow> PStr ''Unknown''
                         | Some e \<Rightarrow> PInt (days_between e (fixed_clock example_now 1)))"
    by blast
  have "map_of (h' 2) ''days_until_expiry'' = Some (PInt (- 1))"
    "map_of (h' 3) ''days_until_expiry'' = Some (PStr ''Never'')"
    "map_of (h' 4) ''days_until_expiry'' = Some (PStr ''Unknown'')"
    "map_of (h' 6) ''days_until_expiry'' = Some (PInt 0)"
    using f pe z n by (simp_all add: example_heap_simps dict_get_def fixed_clock_def)
  with e p z n t w run show ?thesis by auto
qed

section \<open>Totality and partition\<close>

lemma analyze_loop_returns:
  assumes "\<forall>a. hc a = h0 a \<or> hc a = token_update parse td cd (h0 a)"
    and "analyze_loop parse td cd as (r, hc) = Inr (r', h')"
  shows "\<forall>a\<in>set as. expiry_well_typed (h0 a)"
  using assms
proof (induction as arbitrary: r hc)
  case Nil
  then show ?case by simp
next
  case (Cons a as)
  from Cons.prems(1) have "hc a = h0 a \<or> hc a = token_update parse td cd (h0 a)" by blast
  then have same: "analyze_token parse td cd (hc a) = analyze_token parse td cd (h0 a)"
    by (rule analyze_token_inv)
  from Cons.prems(2) obtain c t' where
    step: "analyze_token parse td cd (hc a) = Inr (c, t')"
    and rest: "analyze_loop parse td cd as (bucket_append c a r, hc(a := t')) = Inr (r', h')"
    by (auto split: sum.splits)
  from step same have c: "token_category parse td cd (h0 a) = Some c"
    and u: "token_update parse td cd (h0 a) = t'"
    by (simp_all add: analyze_token_split)
  from c have wa: "expiry_well_typed (h0 a)"
    using token_category_Some [of parse td cd "h0 a"] by simp
  have inv: "\<forall>b. (hc(a := t')) b = h0 b \<or> (hc(a := t')) b = token_update parse td cd (h0 b)"
    using Cons.prems(1) u by auto
  from Cons.IH [OF inv rest] wa show ?case by simp
qed

lemma analyze_all_tokens_returns:
  assumes "analyze_all_tokens parse clk thr tokens h = Inr (r, h')"
  shows "threshold_representable (clk 0) thr \<and> (\<forall>a\<in>set tokens. expiry_well_typed (h a))"
proof -
  let ?r0 = "\<lparr>expiring_soon = [], expired = [], healthy = [], no_expiration = [],
               total_count = length tokens\<rparr>"
  from assms obtain delta td where
    d: "timedelta_days thr = Inr delta" and a: "datetime_add (clk 0) delta = Inr td"
    and l: "analyze_loop parse td (clk 1) tokens (?r0, h) = Inr (r, h')"
    by (auto simp: analyze_all_tokens_def split: sum.splits)
  from d a have "threshold_representable (clk 0) thr"
    by (auto simp: timedelta_days_def datetime_add_def threshold_representable_def
        split: if_splits)
  moreover have "\<forall>a. h a = h a \<or> h a = token_update parse td (clk 1) (h a)" by simp
  from analyze_loop_returns [OF this l] have "\<forall>a\<in>set tokens. expiry_well_typed (h a)" .
  ultimately show ?thesis by simp
qed

lemma length_all_tokens:
  "length (all_tokens r) =
     length (expired r) + length (expiring_soon r) + length (healthy r) + length (no_expiration r)"
  by (simp add: all_tokens_def)

text \<open>
  Claim C3, amended. \<^verbatim>\<open>analyze_all_tokens\<close> returns exactly when the threshold date
  \<^verbatim>\<open>now + timedelta(days=days_threshold)\<close> is a \<^verbatim>\<open>datetime\<close> and every
  \<^verbatim>\<open>expires_at\<close> of the batch is absent, falsy or a string. For every such batch,
  threshold and clock the four lists together hold each input reference as often as the
  input does (none dropped, none added), every input reference is in exactly one of the
  four lists, and the four lengths add up to \<^verbatim>\<open>total_count\<close>, which is the length of the
  input; strings that are not read as dates are included.
\<close>

theorem analysis_partitions_input:
  "((\<exists>r h'. analyze_all_tokens parse clk days_threshold tokens h = Inr (r, h')) \<longleftrightarrow>
      threshold_representable (clk 0) days_threshold \<and>
      (\<forall>b\<in>set tokens. expiry_well_typed (h b))) \<and>
   (threshold_representable (clk 0) days_threshold \<and>
    (\<forall>b\<in>set tokens. expiry_well_typed (h b)) \<longrightarrow>
      (\<exists>r h'. analyze_all_tokens parse clk days_threshold tokens h = Inr (r, h') \<and>
         mset (expired r @ expiring_soon r @ healthy r @ no_expiration r) = mset tokens \<and>
         (\<forall>a\<in>set tokens. \<exists>c. a \<in> set (bucket c r) \<and>
            (\<forall>c'. c' \<noteq> c \<longrightarrow> a \<notin> set (bucket c' r))) \<and>
         (\<forall>c. set (bucket c r) \<subseteq> set tokens) \<and>
         length (expired r) + length (expiring_soon r) + length (healthy r) +
           length (no_expiration r) = total_count r \<and>
         total_count r = length tokens))"
proof -
  have fwd: "threshold_representable (clk 0) days_threshold \<and>
      (\<forall>b\<in>set tokens. expiry_well_typed (h b)) \<Longrightarrow>
      (\<exists>r h'. analyze_all_tokens parse clk days_threshold tokens h = Inr (r, h') \<and>
         mset (expired r @ expiring_soon r @ healthy r @ no_expiration r) = mset tokens \<and>
         (\<forall>a\<in>set tokens. \<exists>c. a \<in> set (bucket c r) \<and>
            (\<forall>c'. c' \<noteq> c \<longrightarrow> a \<notin> set (bucket c' r))) \<and>
         (\<forall>c. set (bucket c r) \<subseteq> set tokens) \<and>
         length (expired r) + length (expiring_soon r) + length (healthy r) +
           length (no_expiration r) = total_count r \<and>
         total_count r = length tokens)"
  proof -
    assume "threshold_representable (clk 0) days_threshold \<and>
      (\<forall>b\<in>set tokens. expiry_well_typed (h b))"
    then have t: "threshold_representable (clk 0) days_threshold"
      and wt: "\<forall>b\<in>set tokens. expiry_well_typed (h b)" by simp_all
    from analyze_all_tokens_partition [where clk = clk and thr = days_threshold
        and tokens = tokens and h = h and parse = parse, OF t wt]
    obtain r h' where
      run: "analyze_all_tokens parse clk days_threshold tokens h = Inr (r, h')"
      and m: "mset (all_tokens r) = mset tokens"
      and n: "total_count r = length tokens"
      and one: "\<forall>a\<in>set tokens. \<exists>c. a \<in> set (bucket c r) \<and>
            (\<forall>c'. c' \<noteq> c \<longrightarrow> a \<notin> set (bucket c' r))"
      and sub: "\<forall>c. set (bucket c r) \<subseteq> set tokens"
      by blast
    from m have "length (all_tokens r) = length tokens" by (rule mset_eq_length)
    with n have len: "length (expired r) + length (expiring_soon r) + length (healthy r) +
           length (no_expiration r) = total_count r"
      by (simp add: length_all_tokens)
    from m have m': "mset (expired r @ expiring_soon r @ healthy r @ no_expiration r) = mset tokens"
      by (simp add: all_tokens_def)
    from run m' one sub len n show ?thesis by blast
  qed
  have bwd: "(\<exists>r h'. analyze_all_tokens parse clk days_threshold tokens h = Inr (r, h')) \<Longrightarrow>
      threshold_representable (clk 0) days_threshold \<and>
      (\<forall>b\<in>set tokens. expiry_well_typed (h b))"
    using analyze_all_tokens_returns by blast
  from fwd bwd show ?thesis by blast
qed

theorem analysis_partitions_input_witness:
  "threshold_representable (fixed_clock example_now 0) 7 \<and>
   expiry_well_typed (example_heap 0) \<and> expiry_well_typed (example_heap 2) \<and>
   expiry_well_typed (example_heap 3) \<and> expiry_well_typed (example_heap 4) \<and>
   (\<exists>r h'. analyze_all_tokens iso_parse (fixed_clock example_now) 7 [0, 2, 3, 4, 3] example_heap = Inr (r, h') \<and>
      mset (expired r @ expiring_soon r @ healthy r @ no_expiration r) = mset [0, 2, 3, 4, 3] \<and>
      length (expired r) + length (expiring_soon r) + length (healthy r) +
        length (no_expiration r) = total_count r \<and>
      total_count r = length [0, 2, 3, 4, 3 :: addr])"
proof -
  have t: "threshold_representable (fixed_clock example_now 0) 7"
    by (simp add: fixed_clock_def example_threshold)
  have w: "expiry_well_typed (example_heap 0)" "expiry_well_typed (example_heap 2)"
    "expiry_well_typed (example_heap 3)" "expiry_well_typed (example_heap 4)"
    by (simp_all add: example_heap_simps expiry_well_typed_def dict_get_def)
  then have wt: "\<forall>b\<in>set [0, 2, 3, 4, 3]. expiry_well_typed (example_heap b)" by simp
  from analysis_partitions_input [where parse = iso_parse and h = example_heap
      and tokens = "[0, 2, 3, 4, 3]" and clk = "fixed_clock example_now" and days_threshold = 7]
    t wt
  have "\<exists>r h'. analyze_all_tokens iso_parse (fixed_clock example_now) 7 [0, 2, 3, 4, 3] example_heap = Inr (r, h') \<and>
      mset (expired r @ expiring_soon r @ healthy r @ no_expiration r) = mset [0, 2, 3, 4, 3] \<and>
      length (expired r) + length (expiring_soon r) + length (healthy r) +
        length (no_expiration r) = total_count r \<and>
      total_count r = length [0, 2, 3, 4, 3 :: addr]"
    by blast
  with t w show ?thesis by blast
qed

theorem analysis_not_total_counterexample:
  "raised (analyze_all_tokens iso_parse (fixed_clock example_now) 7 [3, 7] example_heap) =
     Some AttributeError \<and>
   raised (analyze_all_tokens iso_parse (fixed_clock example_now) 3000000 [3] example_heap) =
     Some OverflowError"
  by (simp add: raised_def analyze_all_tokens_def timedelta_days_def datetime_add_def
      fixed_clock_def example_now_def us_per_day_def max_us_def analyze_token_def
      example_heap_simps dict_get_def)

section \<open>Merging and reporting\<close>

lemma bucket_merge_analysis:
  "bucket c (merge_analysis x y) = bucket c x @ bucket c y"
  by (cases c) (simp_all add: merge_analysis_def)

lemma total_count_merge_analysis:
  "total_count (merge_analysis x y) = total_count x + total_count y"
  by (simp add: merge_analysis_def)

lemma merge_analysis_assoc:
  "merge_analysis (merge_analysis x y) z = merge_analysis x (merge_analysis y z)"
  by (simp add: merge_analysis_def)

lemma bucket_foldl_merge:
  "mset (bucket c (foldl merge_analysis acc bs)) =
     mset (bucket c acc) + sum_list (map (\<lambda>b. mset (bucket c b)) bs)"
  by (induction bs arbitrary: acc) (simp_all add: bucket_merge_analysis)

lemma total_count_foldl_merge:
  "total_count (foldl merge_analysis acc bs) = total_count acc + sum_list (map total_count bs)"
  by (induction bs arbitrary: acc) (simp_all add: total_count_merge_analysis)

lemma sum_list_map_mset_cong:
  fixes f :: "'a \<Rightarrow> 'b::comm_monoid_add"
  shows "mset xs = mset ys \<Longrightarrow> sum_list (map f xs) = sum_list (map f ys)"
proof -
  assume "mset xs = mset ys"
  then have "mset (map f xs) = mset (map f ys)" by (metis mset_map)
  then show ?thesis by (metis sum_mset_sum_list)
qed

text \<open>
  Claim C6. \<^verbatim>\<open>_merge_analysis\<close> appends each list of the addition to the matching list
  of the accumulator, keeping the order inside both, and adds the counts. Merging is
  associative, and commutative up to the order inside a list. Merging a sequence of
  batches into an accumulator gives, in every list, the accumulator's references plus
  the union (as multisets) of the batches', and the sum of the counts; so two sequences
  of batches that hold the same records in each category and the same total, in
  particular the same batches in another order, give the same multiset in every list
  and the same \<^verbatim>\<open>total_count\<close>.
\<close>

theorem merge_concatenates_and_commutes:
  "(\<forall>c. bucket c (merge_analysis acc new) = bucket c acc @ bucket c new) \<and>
   total_count (merge_analysis acc new) = total_count acc + total_count new \<and>
   merge_analysis (merge_analysis x y) z = merge_analysis x (merge_analysis y z) \<and>
   (\<forall>c. mset (bucket c (merge_analysis x y)) = mset (bucket c (merge_analysis y x))) \<and>
   total_count (merge_analysis x y) = total_count (merge_analysis y x) \<and>
   (\<forall>c. mset (bucket c (foldl merge_analysis acc bs)) =
         mset (bucket c acc) + sum_list (map (\<lambda>b. mset (bucket c b)) bs)) \<and>
   total_count (foldl merge_analysis acc bs) = total_count acc + sum_list (map total_count bs) \<and>
   (mset bs = mset bs' \<longrightarrow>
      (\<forall>c. mset (bucket c (foldl merge_analysis acc bs)) =
            mset (bucket c (foldl merge_analysis acc bs'))) \<and>
      total_count (foldl merge_analysis acc bs) = total_count (foldl merge_analysis acc bs')) \<and>
   ((\<forall>c. sum_list (map (\<lambda>b. mset (bucket c b)) bs) = sum_list (map (\<lambda>b. mset (bucket c b)) bs'')) \<and>
    sum_list (map total_count bs) = sum_list (map total_count bs'') \<longrightarrow>
      (\<forall>c. mset (bucket c (foldl merge_analysis acc bs)) =
            mset (bucket c (foldl merge_analysis acc bs''))) \<and>
      total_count (foldl merge_analysis acc bs) = total_count (foldl merge_analysis acc bs''))"
proof (intro conjI allI impI)
  fix c
  show "bucket c (merge_analysis acc new) = bucket c acc @ bucket c new"
    by (rule bucket_merge_analysis)
  show "mset (bucket c (merge_analysis x y)) = mset (bucket c (merge_analysis y x))"
    by (simp add: bucket_merge_analysis)
  show "mset (bucket c (foldl merge_analysis acc bs)) =
         mset (bucket c acc) + sum_list (map (\<lambda>b. mset (bucket c b)) bs)"
    by (rule bucket_foldl_merge)
next
  show "total_count (merge_analysis acc new) = total_count acc + total_count new"
    by (rule total_count_merge_analysis)
  show "merge_analysis (merge_analysis x y) z = merge_analysis x (merge_analysis y z)"
    by (rule merge_analysis_assoc)
  show "total_count (merge_analysis x y) = total_count (merge_analysis y x)"
    by (simp add: total_count_merge_analysis)
  show "total_count (foldl merge_analysis acc bs) = total_count acc + sum_list (map total_count bs)"
    by (rule total_count_foldl_merge)
next
  fix c
  assume p: "mset bs = mset bs'"
  show "mset (bucket c (foldl merge_analysis acc bs)) = mset (bucket c (foldl merge_analysis acc bs'))"
    using sum_list_map_mset_cong [OF p, of "\<lambda>b. mset (bucket c b)"]
    by (simp add: bucket_foldl_merge)
next
  assume p: "mset bs = mset bs'"
  show "total_count (foldl merge_analysis acc bs) = total_count (foldl merge_analysis acc bs')"
    using sum_list_map_mset_cong [OF p, of total_count]
    by (simp add: total_count_foldl_merge)
next
  fix c
  assume "(\<forall>c. sum_list (map (\<lambda>b. mset (bucket c b)) bs) = sum_list (map (\<lambda>b. mset (bucket c b)) bs'')) \<and>
    sum_list (map total_count bs) = sum_list (map total_count bs'')"
  then show "mset (bucket c (foldl merge_analysis acc bs)) =
            mset (bucket c (foldl merge_analysis acc bs''))"
    by (simp add: bucket_foldl_merge)
next
  assume "(\<forall>c. sum_list (map (\<lambda>b. mset (bucket c b)) bs) = sum_list (map (\<lambda>b. mset (bucket c b)) bs'')) \<and>
    sum_list (map total_count bs) = sum_list (map total_count bs'')"
  then show "total_count (foldl merge_analysis acc bs) = total_count (foldl merge_analysis acc bs'')"
    by (simp add: total_count_foldl_merge)
qed

theorem merge_concatenates_and_commutes_witness:
  "mset [example_batch_A, example_batch_B, example_batch_C] =
     mset [example_batch_B, example_batch_C, example_batch_A] \<and>
   expiring_soon (foldl merge_analysis empty_analysis [example_batch_A, example_batch_B, example_batch_C]) =
     [0, 6, 11] \<and>
   expiring_soon (foldl merge_analysis empty_analysis [example_batch_B, example_batch_C, example_batch_A]) =
     [11, 0, 6] \<and>
   (\<forall>c. mset (bucket c (foldl merge_analysis empty_analysis
                 [example_batch_A, example_batch_B, example_batch_C])) =
        mset (bucket c (foldl merge_analysis empty_analysis
                 [example_batch_B, example_batch_C, example_batch_A]))) \<and>
   total_count (foldl merge_analysis empty_analysis [example_batch_A, example_batch_B, example_batch_C]) =
     total_count (foldl merge_analysis empty_analysis [example_batch_B, example_batch_C, example_batch_A])"
proof -
  have p: "mset [example_batch_A, example_batch_B, example_batch_C] =
     mset [example_batch_B, example_batch_C, example_batch_A]"
    by (simp add: add_mset_commute)
  have e: "expiring_soon (foldl merge_analysis empty_analysis
              [example_batch_A, example_batch_B, example_batch_C]) = [0, 6, 11]"
    "expiring_soon (foldl merge_analysis empty_analysis
              [example_batch_B, example_batch_C, example_batch_A]) = [11, 0, 6]"
    by (simp_all add: merge_analysis_def empty_analysis_def example_batch_A_def
        example_batch_B_def example_batch_C_def)
  from merge_concatenates_and_commutes [where acc = empty_analysis
      and bs = "[example_batch_A, example_batch_B, example_batch_C]"
      and bs' = "[example_batch_B, example_batch_C, example_batch_A]"] p
  have "(\<forall>c. mset (bucket c (foldl merge_analysis empty_analysis
                 [example_batch_A, example_batch_B, example_batch_C])) =
        mset (bucket c (foldl merge_analysis empty_analysis
                 [example_batch_B, example_batch_C, example_batch_A]))) \<and>
   total_count (foldl merge_analysis empty_analysis [example_batch_A, example_batch_B, example_batch_C]) =
     total_count (foldl merge_analysis empty_analysis [example_batch_B, example_batch_C, example_batch_A])"
    by blast
  with p e show ?thesis by blast
qed

text \<open>
  Claim C8. \<^verbatim>\<open>_print_summary_and_notify\<close> hands the analysis to the reporter, which
  composes and sends the message, exactly when \<^verbatim>\<open>send_all_tokens\<close> is set or
  \<^verbatim>\<open>problematic_count\<close> is positive, where \<^verbatim>\<open>get_summary_stats\<close> computes
  \<^verbatim>\<open>problematic_count\<close> as \<^verbatim>\<open>expired_count + expiring_count\<close>, the lengths of the
  \<^verbatim>\<open>expired\<close> and \<^verbatim>\<open>expiring_soon\<close> lists; the reporter's own gate never stops a
  report the caller has decided to send. Otherwise the function only prints and the
  report is skipped; no branch raises.
\<close>

theorem report_sent_iff_problematic_or_send_all:
  "print_summary_and_notify send_all_tokens an =
     (if send_all_tokens \<or> 0 < problematic_count (get_summary_stats an)
      then ReportComposed send_all_tokens an else ReportSkipped) \<and>
   ((\<exists>flag a. print_summary_and_notify send_all_tokens an = ReportComposed flag a) \<longleftrightarrow>
      send_all_tokens \<or> 0 < problematic_count (get_summary_stats an)) \<and>
   problematic_count (get_summary_stats an) =
     expired_count (get_summary_stats an) + expiring_count (get_summary_stats an) \<and>
   expired_count (get_summary_stats an) = length (expired an) \<and>
   expiring_count (get_summary_stats an) = length (expiring_soon an)"
  by (auto simp: print_summary_and_notify_def send_notification_def get_summary_stats_def Let_def)

theorem report_sent_iff_problematic_or_send_all_witness:
  "print_summary_and_notify False example_batch_A = ReportComposed False example_batch_A \<and>
   print_summary_and_notify False example_batch_B = ReportSkipped \<and>
   print_summary_and_notify True example_batch_B = ReportComposed True example_batch_B \<and>
   problematic_count (get_summary_stats example_batch_A) = 3 \<and>
   problematic_count (get_summary_stats example_batch_B) = 0"
proof -
  have a: "problematic_count (get_summary_stats example_batch_A) = 3"
    and b: "problematic_count (get_summary_stats example_batch_B) = 0"
    by (simp_all add: get_summary_stats_def example_batch_A_def example_batch_B_def)
  from report_sent_iff_problematic_or_send_all [of False example_batch_A]
    report_sent_iff_problematic_or_send_all [of False example_batch_B]
    report_sent_iff_problematic_or_send_all [of True example_batch_B] a b
  show ?thesis by (simp add: example_batch_B_def)
qed

section \<open>Scope metadata\<close>

lemma add_scope_info_named:
  "map_of scope ''name'' = Some n \<Longrightarrow>
     add_scope_info nk pk pf scope t =
       Inr (dict_set pk (dict_get_default scope pf n) (dict_set nk n t))"
  by (simp add: add_scope_info_def dict_index_def)

lemma dict_set_twice_idem:
  assumes "nk \<noteq> pk"
  shows "dict_set pk p (dict_set nk n (dict_set pk p (dict_set nk n t))) =
           dict_set pk p (dict_set nk n t)"
proof -
  let ?t = "dict_set pk p (dict_set nk n t)"
  from assms have "map_of ?t nk = Some n" by (simp add: map_of_dict_set)
  then have "dict_set nk n ?t = ?t" by (rule dict_set_same)
  moreover have "map_of ?t pk = Some p" by (simp add: map_of_dict_set)
  then have "dict_set pk p ?t = ?t" by (rule dict_set_same)
  ultimately show ?thesis by simp
qed

lemma add_info_loop_char:
  assumes "\<forall>t. f t = Inr (g t)" and "\<forall>t. g (g t) = g t"
  shows "add_info_loop f as h = Inr (\<lambda>a. if a \<in> set as then g (h a) else h a)"
  using assms
proof (induction as arbitrary: h)
  case Nil
  then show ?case by simp
next
  case (Cons a as)
  have step: "add_info_loop f (a # as) h = add_info_loop f as (h(a := g (h a)))"
    using Cons.prems(1) by simp
  have ih: "add_info_loop f as (h(a := g (h a))) =
      Inr (\<lambda>b. if b \<in> set as then g ((h(a := g (h a))) b) else (h(a := g (h a))) b)"
    by (rule Cons.IH [OF Cons.prems])
  have eq: "(\<lambda>b. if b \<in> set as then g ((h(a := g (h a))) b) else (h(a := g (h a))) b) =
        (\<lambda>b. if b \<in> set (a # as) then g (h b) else h b)"
    using Cons.prems(2) by auto
  show ?case by (simp only: step ih eq)
qed

lemma attach_scope_char:
  assumes "map_of scope ''name'' = Some n" and "nk \<noteq> pk"
  shows "add_info_loop (add_scope_info nk pk pf scope) as h =
           Inr (\<lambda>a. if a \<in> set as
                     then dict_set pk (dict_get_default scope pf n) (dict_set nk n (h a))
                     else h a)"
proof -
  let ?g = "\<lambda>t. dict_set pk (dict_get_default scope pf n) (dict_set nk n t)"
  have f: "\<forall>t. add_scope_info nk pk pf scope t = Inr (?g t)"
    using add_scope_info_named [OF assms(1)] by simp
  have i: "\<forall>t. ?g (?g t) = ?g t"
    using dict_set_twice_idem [OF assms(2)] by simp
  from add_info_loop_char [of "add_scope_info nk pk pf scope" ?g, OF f i]
  show ?thesis .
qed

lemma attach_project_char:
  assumes "map_of project ''name'' = Some n"
  shows "attach_project_and_merge project acc pa h =
           Inr (merge_analysis acc pa,
                \<lambda>a. if a \<in> set (all_tokens pa)
                     then dict_set ''project_path'' (dict_get_default project ''path_with_namespace'' n)
                            (dict_set ''project_name'' n (h a))
                     else h a)"
  using attach_scope_char [OF assms, of "''project_name''" "''project_path''"]
  by (simp add: attach_project_and_merge_def add_project_info_def)

lemma attach_group_char:
  assumes "map_of grp ''name'' = Some n"
  shows "attach_group_and_merge grp acc ga h =
           Inr (merge_analysis acc ga,
                \<lambda>a. if a \<in> set (all_tokens ga)
                     then dict_set ''group_path'' (dict_get_default grp ''full_path'' n)
                            (dict_set ''group_name'' n (h a))
                     else h a)"
  using attach_scope_char [OF assms, of "''group_name''" "''group_path''"]
  by (simp add: attach_group_and_merge_def add_group_info_def)

text \<open>
  Claim C7. Attaching the metadata of a project (or of a group) that has a \<^verbatim>\<open>name\<close> to
  a batch's analysis changes the dictionaries of that batch only: every token in any
  of its four lists gets \<^verbatim>\<open>project_name\<close> and \<^verbatim>\<open>project_path\<close> (\<^verbatim>\<open>group_name\<close>,
  \<^verbatim>\<open>group_path\<close>), the path being \<^verbatim>\<open>path_with_namespace\<close> (\<^verbatim>\<open>full_path\<close>) or, without
  it, the name; every other key of these dictionaries, \<^verbatim>\<open>status\<close> and
  \<^verbatim>\<open>days_until_expiry\<close> among them, keeps its value; every dictionary that is not in the
  batch, so every token of a batch merged before, is left as it was; and the merge that
  follows appends the lists of the batch unchanged to the accumulator's.
\<close>

theorem scope_info_changes_batch_only:
  "(map_of project ''name'' = Some n \<longrightarrow>
      (\<exists>h'. attach_project_and_merge project acc pa h = Inr (merge_analysis acc pa, h') \<and>
         (\<forall>a\<in>set (all_tokens pa).
            map_of (h' a) ''project_name'' = Some n \<and>
            map_of (h' a) ''project_path'' =
              Some (dict_get_default project ''path_with_namespace'' n) \<and>
            (\<forall>k. k \<noteq> ''project_name'' \<and> k \<noteq> ''project_path'' \<longrightarrow>
                 map_of (h' a) k = map_of (h a) k)) \<and>
         (\<forall>a. a \<notin> set (all_tokens pa) \<longrightarrow> h' a = h a) \<and>
         (\<forall>a\<in>set (all_tokens acc). a \<notin> set (all_tokens pa) \<longrightarrow> h' a = h a) \<and>
         (\<forall>c. bucket c (merge_analysis acc pa) = bucket c acc @ bucket c pa))) \<and>
   (map_of grp ''name'' = Some m \<longrightarrow>
      (\<exists>h'. attach_group_and_merge grp acc ga h = Inr (merge_analysis acc ga, h') \<and>
         (\<forall>a\<in>set (all_tokens ga).
            map_of (h' a) ''group_name'' = Some m \<and>
            map_of (h' a) ''group_path'' = Some (dict_get_default grp ''full_path'' m) \<and>
            (\<forall>k. k \<noteq> ''group_name'' \<and> k \<noteq> ''group_path'' \<longrightarrow>
                 map_of (h' a) k = map_of (h a) k)) \<and>
         (\<forall>a. a \<notin> set (all_tokens ga) \<longrightarrow> h' a = h a) \<and>
         (\<forall>a\<in>set (all_tokens acc). a \<notin> set (all_tokens ga) \<longrightarrow> h' a = h a) \<and>
         (\<forall>c. bucket c (merge_analysis acc ga) = bucket c acc @ bucket c ga)))"
proof (intro conjI impI)
  assume "map_of project ''name'' = Some n"
  from attach_project_char [OF this, of acc pa h]
  show "\<exists>h'. attach_project_and_merge project acc pa h = Inr (merge_analysis acc pa, h') \<and>
         (\<forall>a\<in>set (all_tokens pa).
            map_of (h' a) ''project_name'' = Some n \<and>
            map_of (h' a) ''project_path'' =
              Some (dict_get_default project ''path_with_namespace'' n) \<and>
            (\<forall>k. k \<noteq> ''project_name'' \<and> k \<noteq> ''project_path'' \<longrightarrow>
                 map_of (h' a) k = map_of (h a) k)) \<and>
         (\<forall>a. a \<notin> set (all_tokens pa) \<longrightarrow> h' a = h a) \<and>
         (\<forall>a\<in>set (all_tokens acc). a \<notin> set (all_tokens pa) \<longrightarrow> h' a = h a) \<and>
         (\<forall>c. bucket c (merge_analysis acc pa) = bucket c acc @ bucket c pa)"
    by (simp add: map_of_dict_set bucket_merge_analysis)
next
  assume "map_of grp ''name'' = Some m"
  from attach_group_char [OF this, of acc ga h]
  show "\<exists>h'. attach_group_and_merge grp acc ga h = Inr (merge_analysis acc ga, h') \<and>
         (\<forall>a\<in>set (all_tokens ga).
            map_of (h' a) ''group_name'' = Some m \<and>
            map_of (h' a) ''group_path'' = Some (dict_get_default grp ''full_path'' m) \<and>
            (\<forall>k. k \<noteq> ''group_name'' \<and> k \<noteq> ''group_path'' \<longrightarrow>
                 map_of (h' a) k = map_of (h a) k)) \<and>
         (\<forall>a. a \<notin> set (all_tokens ga) \<longrightarrow> h' a = h a) \<and>
         (\<forall>a\<in>set (all_tokens acc). a \<notin> set (all_tokens ga) \<longrightarrow> h' a = h a) \<and>
         (\<forall>c. bucket c (merge_analysis acc ga) = bucket c acc @ bucket c ga)"
    by (simp add: map_of_dict_set bucket_merge_analysis)
qed

theorem scope_info_changes_batch_only_witness:
  "map_of example_project ''name'' = Some (PStr ''infra'') \<and>
   map_of example_group ''name'' = Some (PStr ''ops'') \<and>
   (\<exists>h'. attach_project_and_merge example_project example_batch_B example_batch_A example_heap =
            Inr (merge_analysis example_batch_B example_batch_A, h') \<and>
      map_of (h' 2) ''project_name'' = Some (PStr ''infra'') \<and>
      map_of (h' 2) ''project_path'' = Some (PStr ''ops/infra'') \<and>
      map_of (h' 2) ''expires_at'' = Some (PStr ''2023-12-31T00:00:00'') \<and>
      h' 5 = example_heap 5 \<and> h' 8 = example_heap 8) \<and>
   (\<exists>h'. attach_group_and_merge example_group example_batch_B example_batch_C example_heap =
            Inr (merge_analysis example_batch_B example_batch_C, h') \<and>
      map_of (h' 11) ''group_name'' = Some (PStr ''ops'') \<and>
      map_of (h' 11) ''group_path'' = Some (PStr ''ops'') \<and>
      h' 5 = example_heap 5 \<and> h' 2 = example_heap 2)"
proof -
  have p: "map_of example_project ''name'' = Some (PStr ''infra'')"
    and g: "map_of example_group ''name'' = Some (PStr ''ops'')"
    by (simp_all add: example_project_def example_group_def)
  have dp: "dict_get_default example_project ''path_with_namespace'' (PStr ''infra'') = PStr ''ops/infra''"
    and dg: "dict_get_default example_group ''full_path'' (PStr ''ops'') = PStr ''ops''"
    by (simp_all add: dict_get_default_def example_project_def example_group_def)
  have m: "2 \<in> set (all_tokens example_batch_A)" "5 \<notin> set (all_tokens example_batch_A)"
    "8 \<notin> set (all_tokens example_batch_A)" "11 \<in> set (all_tokens example_batch_C)"
    "5 \<notin> set (all_tokens example_batch_C)" "2 \<notin> set (all_tokens example_batch_C)"
    by (simp_all add: all_tokens_def example_batch_A_def example_batch_C_def)
  note inst = scope_info_changes_batch_only [where project = example_project
      and n = "PStr ''infra''" and grp = example_group and m = "PStr ''ops''"
      and acc = example_batch_B and pa = example_batch_A and ga = example_batch_C
      and h = example_heap]
  from inst have "map_of example_project ''name'' = Some (PStr ''infra'') \<longrightarrow>
      (\<exists>h'. attach_project_and_merge example_project example_batch_B example_batch_A example_heap =
            Inr (merge_analysis example_batch_B example_batch_A, h') \<and>
         (\<forall>a\<in>set (all_tokens example_batch_A).
            map_of (h' a) ''project_name'' = Some (PStr ''infra'') \<and>
            map_of (h' a) ''project_path'' =
              Some (dict_get_default example_project ''path_with_namespace'' (PStr ''infra'')) \<and>
            (\<forall>k. k \<noteq> ''project_name'' \<and> k \<noteq> ''project_path'' \<longrightarrow>
                 map_of (h' a) k = map_of (example_heap a) k)) \<and>
         (\<forall>a. a \<notin> set (all_tokens example_batch_A) \<longrightarrow> h' a = example_heap a) \<and>
         (\<forall>a\<in>set (all_tokens example_batch_B). a \<notin> set (all_tokens example_batch_A) \<longrightarrow>
            h' a = example_heap a) \<and>
         (\<forall>c. bucket c (merge_analysis example_batch_B example_batch_A) =
              bucket c example_batch_B @ bucket c example_batch_A))"
    by (rule conjunct1)
  from this [rule_format, OF p] obtain h1 where
    r1: "attach_project_and_merge example_project example_batch_B example_batch_A example_heap =
            Inr (merge_analysis example_batch_B example_batch_A, h1)"
    and i1: "\<forall>a\<in>set (all_tokens example_batch_A).
            map_of (h1 a) ''project_name'' = Some (PStr ''infra'') \<and>
            map_of (h1 a) ''project_path'' =
              Some (dict_get_default example_project ''path_with_namespace'' (PStr ''infra'')) \<and>
            (\<forall>k. k \<noteq> ''project_name'' \<and> k \<noteq> ''project_path'' \<longrightarrow>
                 map_of (h1 a) k = map_of (example_heap a) k)"
    and o1: "\<forall>a. a \<notin> set (all_tokens example_batch_A) \<longrightarrow> h1 a = example_heap a"
    by (elim exE conjE)
  from inst have "map_of example_group ''name'' = Some (PStr ''ops'') \<longrightarrow>
      (\<exists>h'. attach_group_and_merge example_group example_batch_B example_batch_C example_heap =
            Inr (merge_analysis example_batch_B example_batch_C, h') \<and>
         (\<forall>a\<in>set (all_tokens example_batch_C).
            map_of (h' a) ''group_name'' = Some (PStr ''ops'') \<and>
            map_of (h' a) ''group_path'' =
              Some (dict_get_default example_group ''full_path'' (PStr ''ops'')) \<and>
            (\<forall>k. k \<noteq> ''group_name'' \<and> k \<noteq> ''group_path'' \<longrightarrow>
                 map_of (h' a) k = map_of (example_heap a) k)) \<and>
         (\<forall>a. a \<notin> set (all_tokens example_batch_C) \<longrightarrow> h' a = example_heap a) \<and>
         (\<forall>a\<in>set (all_tokens example_batch_B). a \<notin> set (all_tokens example_batch_C) \<longrightarrow>
            h' a = example_heap a) \<and>
         (\<forall>c. bucket c (merge_analysis example_batch_B example_batch_C) =
              bucket c example_batch_B @ bucket c example_batch_C))"
    by (rule conjunct2)
  from this [rule_format, OF g] obtain h2 where
    r2: "attach_group_and_merge example_group example_batch_B example_batch_C example_heap =
            Inr (merge_analysis example_batch_B example_batch_C, h2)"
    and i2: "\<forall>a\<in>set (all_tokens example_batch_C).
            map_of (h2 a) ''group_name'' = Some (PStr ''ops'') \<and>
            map_of (h2 a) ''group_path'' =
              Some (dict_get_default example_group ''full_path'' (PStr ''ops'')) \<and>
            (\<forall>k. k \<noteq> ''group_name'' \<and> k \<noteq> ''group_path'' \<longrightarrow>
                 map_of (h2 a) k = map_of (example_heap a) k)"
    and o2: "\<forall>a. a \<notin> set (all_tokens example_batch_C) \<longrightarrow> h2 a = example_heap a"
    by (elim exE conjE)
  from i1 m(1) have x1: "map_of (h1 2) ''project_name'' = Some (PStr ''infra'') \<and>
            map_of (h1 2) ''project_path'' =
              Some (dict_get_default example_project ''path_with_namespace'' (PStr ''infra'')) \<and>
            (\<forall>k. k \<noteq> ''project_name'' \<and> k \<noteq> ''project_path'' \<longrightarrow>
                 map_of (h1 2) k = map_of (example_heap 2) k)"
    by (rule bspec)
  from x1 have a1: "map_of (h1 2) ''project_name'' = Some (PStr ''infra'')" by (rule conjunct1)
  from x1 dp have a2: "map_of (h1 2) ''project_path'' = Some (PStr ''ops/infra'')" by simp
  from x1 have "''expires_at'' \<noteq> ''project_name'' \<and> ''expires_at'' \<noteq> ''project_path'' \<longrightarrow>
                 map_of (h1 2) ''expires_at'' = map_of (example_heap 2) ''expires_at''"
    by (elim conjE) (rule spec)
  then have a3: "map_of (h1 2) ''expires_at'' = Some (PStr ''2023-12-31T00:00:00'')"
    by (simp add: example_heap_simps)
  from o1 [rule_format, OF m(2)] o1 [rule_format, OF m(3)]
  have b1: "h1 5 = example_heap 5" "h1 8 = example_heap 8" .
  from i2 [THEN bspec, OF m(4)] dg
  have c1: "map_of (h2 11) ''group_name'' = Some (PStr ''ops'')"
    "map_of (h2 11) ''group_path'' = Some (PStr ''ops'')" by simp_all
  from o2 [rule_format, OF m(5)] o2 [rule_format, OF m(6)]
  have b2: "h2 5 = example_heap 5" "h2 2 = example_heap 2" .
  have first: "\<exists>h'. attach_project_and_merge example_project example_batch_B example_batch_A example_heap =
            Inr (merge_analysis example_batch_B example_batch_A, h') \<and>
      map_of (h' 2) ''project_name'' = Some (PStr ''infra'') \<and>
      map_of (h' 2) ''project_path'' = Some (PStr ''ops/infra'') \<and>
      map_of (h' 2) ''expires_at'' = Some (PStr ''2023-12-31T00:00:00'') \<and>
      h' 5 = example_heap 5 \<and> h' 8 = example_heap 8"
    using r1 a1 a2 a3 b1 by (intro exI [of _ h1] conjI)
  have second: "\<exists>h'. attach_group_and_merge example_group example_batch_B example_batch_C example_heap =
            Inr (merge_analysis example_batch_B example_batch_C, h') \<and>
      map_of (h' 11) ''group_name'' = Some (PStr ''ops'') \<and>
      map_of (h' 11) ''group_path'' = Some (PStr ''ops'') \<and>
      h' 5 = example_heap 5 \<and> h' 2 = example_heap 2"
    using r2 c1 b2 by (intro exI [of _ h2] conjI)
  from p g first second show ?thesis by (intro conjI)
qed

section \<open>The older expiry check\<close>

lemma parsed_expiry_cong:
  "dict_get t ''expires_at'' = dict_get t' ''expires_at'' \<Longrightarrow>
     parsed_expiry parse t = parsed_expiry parse t'"
  by (simp add: parsed_expiry_def)

lemma expiry_well_typed_cong:
  "dict_get t ''expires_at'' = dict_get t' ''expires_at'' \<Longrightarrow>
     expiry_well_typed t = expiry_well_typed t'"
  by (simp add: expiry_well_typed_def)

lemma check_loop_Cons:
  assumes "expiry_well_typed (hc a)"
  shows "check_loop parse clk td (a # as) (ts, k, hc) =
           (case parsed_expiry parse (hc a) of
              None \<Rightarrow> check_loop parse clk td as (ts, k, hc)
            | Some e \<Rightarrow>
                if e \<le> td then
                  check_loop parse clk td as
                    (ts @ [a], Suc k,
                     hc(a := dict_set ''days_until_expiry'' (PInt (days_between e (clk k))) (hc a)))
                else check_loop parse clk td as (ts, k, hc))"
  using assms
  by (auto simp: expiry_well_typed_def parsed_expiry_def split: pyval.splits option.splits)

lemma check_loop_char:
  assumes "\<forall>a. dict_get (hc a) ''expires_at'' = dict_get (h0 a) ''expires_at''"
    and "\<forall>a\<in>set as. expiry_well_typed (h0 a)"
    and "\<forall>k. clk k = now"
  shows "\<exists>k' h'. check_loop parse clk td as (ts, k, hc) =
             Inr (ts @ filter (\<lambda>a. \<exists>e. parsed_expiry parse (h0 a) = Some e \<and> e \<le> td) as, k', h') \<and>
           (\<forall>a e. parsed_expiry parse (h0 a) = Some e \<and> e \<le> td \<and>
                  (a \<in> set as \<or> dict_get (hc a) ''days_until_expiry'' = PInt (days_between e now)) \<longrightarrow>
                  dict_get (h' a) ''days_until_expiry'' = PInt (days_between e now))"
  using assms(1,2)
proof (induction as arbitrary: ts k hc)
  case Nil
  then show ?case by simp
next
  case (Cons a as)
  from Cons.prems(1) have ea: "dict_get (hc a) ''expires_at'' = dict_get (h0 a) ''expires_at''"
    by blast
  from Cons.prems(2) have "expiry_well_typed (h0 a)" by simp
  with expiry_well_typed_cong [OF ea] have wa: "expiry_well_typed (hc a)" by simp
  from ea have pa: "parsed_expiry parse (hc a) = parsed_expiry parse (h0 a)"
    by (rule parsed_expiry_cong)
  from Cons.prems(2) have wt: "\<forall>a\<in>set as. expiry_well_typed (h0 a)" by simp
  show ?case
  proof (cases "\<exists>e. parsed_expiry parse (h0 a) = Some e \<and> e \<le> td")
    case True
    then obtain e where e: "parsed_expiry parse (h0 a) = Some e" and le: "e \<le> td" by blast
    let ?hc = "hc(a := dict_set ''days_until_expiry'' (PInt (days_between e now)) (hc a))"
    have step: "check_loop parse clk td (a # as) (ts, k, hc) =
                  check_loop parse clk td as (ts @ [a], Suc k, ?hc)"
      using check_loop_Cons [where hc = hc and a = a and parse = parse and clk = clk and td = td
          and as = as and ts = ts and k = k, OF wa] pa e le assms(3)
      by (simp del: check_loop.simps)
    have inv: "\<forall>b. dict_get (?hc b) ''expires_at'' = dict_get (h0 b) ''expires_at''"
      using Cons.prems(1) by (simp add: dict_get_dict_set)
    from Cons.IH [OF inv wt, of "ts @ [a]" "Suc k"]
    obtain k' h' where
      run: "check_loop parse clk td as (ts @ [a], Suc k, ?hc) =
              Inr ((ts @ [a]) @ filter (\<lambda>a. \<exists>e. parsed_expiry parse (h0 a) = Some e \<and> e \<le> td) as, k', h')"
      and d: "\<forall>b e. parsed_expiry parse (h0 b) = Some e \<and> e \<le> td \<and>
                  (b \<in> set as \<or> dict_get (?hc b) ''days_until_expiry'' = PInt (days_between e now)) \<longrightarrow>
                  dict_get (h' b) ''days_until_expiry'' = PInt (days_between e now)"
      by blast
    have r: "check_loop parse clk td (a # as) (ts, k, hc) =
             Inr (ts @ filter (\<lambda>a. \<exists>e. parsed_expiry parse (h0 a) = Some e \<and> e \<le> td) (a # as), k', h')"
      using step run True by (simp del: check_loop.simps)
    have "\<forall>b e'. parsed_expiry parse (h0 b) = Some e' \<and> e' \<le> td \<and>
                  (b \<in> set (a # as) \<or> dict_get (hc b) ''days_until_expiry'' = PInt (days_between e' now)) \<longrightarrow>
                  dict_get (h' b) ''days_until_expiry'' = PInt (days_between e' now)"
    proof (intro allI impI)
      fix b e'
      assume h: "parsed_expiry parse (h0 b) = Some e' \<and> e' \<le> td \<and>
                  (b \<in> set (a # as) \<or> dict_get (hc b) ''days_until_expiry'' = PInt (days_between e' now))"
      have "b \<in> set as \<or> dict_get (?hc b) ''days_until_expiry'' = PInt (days_between e' now)"
      proof (cases "b = a")
        case True
        with h e have "e' = e" by simp
        with True show ?thesis by (simp add: dict_get_dict_set)
      next
        case False
        with h show ?thesis by auto
      qed
      with h d [rule_format, of b e'] show "dict_get (h' b) ''days_until_expiry'' = PInt (days_between e' now)" by simp
    qed
    with r show ?thesis by (intro exI [of _ k'] exI [of _ h'] conjI)
  next
    case False
    have step: "check_loop parse clk td (a # as) (ts, k, hc) = check_loop parse clk td as (ts, k, hc)"
      using check_loop_Cons [where hc = hc and a = a and parse = parse and clk = clk and td = td
          and as = as and ts = ts and k = k, OF wa] pa False
      by (auto simp del: check_loop.simps split: option.splits)
    from Cons.IH [OF Cons.prems(1) wt, of ts k]
    obtain k' h' where
      run: "check_loop parse clk td as (ts, k, hc) =
              Inr (ts @ filter (\<lambda>a. \<exists>e. parsed_expiry parse (h0 a) = Some e \<and> e \<le> td) as, k', h')"
      and d: "\<forall>b e. parsed_expiry parse (h0 b) = Some e \<and> e \<le> td \<and>
                  (b \<in> set as \<or> dict_get (hc b) ''days_until_expiry'' = PInt (days_between e now)) \<longrightarrow>
                  dict_get (h' b) ''days_until_expiry'' = PInt (days_between e now)"
      by blast
    have r: "check_loop parse clk td (a # as) (ts, k, hc) =
             Inr (ts @ filter (\<lambda>a. \<exists>e. parsed_expiry parse (h0 a) = Some e \<and> e \<le> td) (a # as), k', h')"
      using step run False by (simp del: check_loop.simps)
    have "\<forall>b e'. parsed_expiry parse (h0 b) = Some e' \<and> e' \<le> td \<and>
                  (b \<in> set (a # as) \<or> dict_get (hc b) ''days_until_expiry'' = PInt (days_between e' now)) \<longrightarrow>
                  dict_get (h' b) ''days_until_expiry'' = PInt (days_between e' now)"
    proof (intro allI impI)
      fix b e'
      assume h: "parsed_expiry parse (h0 b) = Some e' \<and> e' \<le> td \<and>
                  (b \<in> set (a # as) \<or> dict_get (hc b) ''days_until_expiry'' = PInt (days_between e' now))"
      with False have "b \<noteq> a" by auto
      with h have "b \<in> set as \<or> dict_get (hc b) ''days_until_expiry'' = PInt (days_between e' now)"
        by auto
      with h d [rule_format, of b e'] show "dict_get (h' b) ''days_until_expiry'' = PInt (days_between e' now)" by simp
    qed
    with r show ?thesis by (intro exI [of _ k'] exI [of _ h'] conjI)
  qed
qed

lemma check_token_expiration_char:
  assumes "threshold_representable now thr"
    and "\<forall>a\<in>set tokens. expiry_well_typed (h a)"
  shows "\<exists>h'. check_token_expiration parse (fixed_clock now) thr tokens h =
             Inr (filter (\<lambda>a. \<exists>e. parsed_expiry parse (h a) = Some e \<and> e \<le> now + thr * us_per_day)
                    tokens, h') \<and>
           (\<forall>a e. parsed_expiry parse (h a) = Some e \<and> e \<le> now + thr * us_per_day \<and>
                  a \<in> set tokens \<longrightarrow>
                  dict_get (h' a) ''days_until_expiry'' = PInt (days_between e now))"
proof -
  have inv: "\<forall>a. dict_get (h a) ''expires_at'' = dict_get (h a) ''expires_at''" by simp
  have clk: "\<forall>k. fixed_clock now k = now" by (simp add: fixed_clock_def)
  from check_loop_char [where hc = h and ?h0.0 = h and as = tokens and clk = "fixed_clock now"
      and now = now and parse = parse and td = "now + thr * us_per_day" and ts = "[]" and k = 1,
      OF inv assms(2) clk]
  obtain k' h' where
    run: "check_loop parse (fixed_clock now) (now + thr * us_per_day) tokens ([], 1, h) =
            Inr ([] @ filter (\<lambda>a. \<exists>e. parsed_expiry parse (h a) = Some e \<and> e \<le> now + thr * us_per_day)
                    tokens, k', h')"
    and d: "\<forall>a e. parsed_expiry parse (h a) = Some e \<and> e \<le> now + thr * us_per_day \<and>
                  (a \<in> set tokens \<or> dict_get (h a) ''days_until_expiry'' = PInt (days_between e now)) \<longrightarrow>
                  dict_get (h' a) ''days_until_expiry'' = PInt (days_between e now)"
    by (elim exE conjE)
  have t: "timedelta_days thr = Inr (thr * us_per_day)"
    "datetime_add (fixed_clock now 0) (thr * us_per_day) = Inr (now + thr * us_per_day)"
    using threshold_date_ok [OF assms(1)] by (simp_all add: fixed_clock_def)
  have r: "check_token_expiration parse (fixed_clock now) thr tokens h =
             Inr (filter (\<lambda>a. \<exists>e. parsed_expiry parse (h a) = Some e \<and> e \<le> now + thr * us_per_day)
                    tokens, h')"
    using run t by (simp add: check_token_expiration_def del: check_loop.simps)
  have "\<forall>a e. parsed_expiry parse (h a) = Some e \<and> e \<le> now + thr * us_per_day \<and>
                  a \<in> set tokens \<longrightarrow>
                  dict_get (h' a) ''days_until_expiry'' = PInt (days_between e now)"
    using d by blast
  with r show ?thesis by (intro exI [of _ h'] conjI)
qed

lemma token_category_problem:
  "(token_category parse td cd t = Some Expired \<longleftrightarrow>
      (\<exists>e. parsed_expiry parse t = Some e \<and> e \<le> cd)) \<and>
   (token_category parse td cd t = Some ExpiringSoon \<longleftrightarrow>
      (\<exists>e. parsed_expiry parse t = Some e \<and> cd < e \<and> e \<le> td))"
  by (auto simp: token_category_def analyze_token_def parsed_expiry_def Let_def
      split: pyval.splits option.splits)

lemma mset_filter_disjoint:
  "\<forall>x. \<not> (P x \<and> Q x) \<Longrightarrow>
     mset (filter P xs) + mset (filter Q xs) = mset (filter (\<lambda>x. P x \<or> Q x) xs)"
  by (induction xs) auto

lemma parsed_expiry_truthy:
  "parsed_expiry parse t = Some e \<Longrightarrow> truthy (dict_get t ''expires_at'')"
  by (auto simp: parsed_expiry_def split: pyval.splits if_splits)

text \<open>
  Claim C10, amended. For an evaluation instant \<open>now\<close>, a threshold that is not negative
  and whose threshold date is representable, and a batch in which every
  \<^verbatim>\<open>expires_at\<close> is absent, falsy or a string, the older
  \<^verbatim>\<open>check_token_expiration\<close> and \<^verbatim>\<open>analyze_all_tokens\<close> both return, the tokens the
  older function returns are, as a multiset, the \<^verbatim>\<open>expired\<close> and \<^verbatim>\<open>expiring_soon\<close>
  lists of the analysis together, each returned token has the same
  \<^verbatim>\<open>days_until_expiry\<close> after either call, and no token without a parsed expiry
  (permanent, or with a string that is not read) is returned by either.
\<close>

theorem legacy_check_agrees_with_analysis:
  assumes "0 \<le> days_threshold"
    and "threshold_representable now days_threshold"
    and "\<forall>b\<in>set tokens. expiry_well_typed (h b)"
  shows "\<exists>ts hL r hA.
           check_token_expiration parse (fixed_clock now) days_threshold tokens h = Inr (ts, hL) \<and>
           analyze_all_tokens parse (fixed_clock now) days_threshold tokens h = Inr (r, hA) \<and>
           mset ts = mset (expired r @ expiring_soon r) \<and>
           (\<forall>a\<in>set ts.
              dict_get (hL a) ''days_until_expiry'' = dict_get (hA a) ''days_until_expiry'' \<and>
              (\<exists>e. parsed_expiry parse (h a) = Some e \<and>
                   dict_get (hL a) ''days_until_expiry'' = PInt (days_between e now))) \<and>
           (\<forall>a\<in>set tokens. parsed_expiry parse (h a) = None \<longrightarrow>
              a \<notin> set ts \<and> a \<notin> set (expired r) \<and> a \<notin> set (expiring_soon r))"
proof -
  let ?td = "now + days_threshold * us_per_day"
  let ?sel = "\<lambda>a. \<exists>e. parsed_expiry parse (h a) = Some e \<and> e \<le> ?td"
  let ?exp = "\<lambda>a. \<exists>e. parsed_expiry parse (h a) = Some e \<and> e \<le> now"
  let ?soon = "\<lambda>a. \<exists>e. parsed_expiry parse (h a) = Some e \<and> now < e \<and> e \<le> ?td"
  have le: "now \<le> ?td" using assms(1) by (simp add: us_per_day_def)
  from check_token_expiration_char [where parse = parse, OF assms(2,3)]
  obtain hL where
    runL: "check_token_expiration parse (fixed_clock now) days_threshold tokens h =
             Inr (filter ?sel tokens, hL)"
    and dL: "\<forall>a e. parsed_expiry parse (h a) = Some e \<and> e \<le> ?td \<and> a \<in> set tokens \<longrightarrow>
                  dict_get (hL a) ''days_until_expiry'' = PInt (days_between e now)"
    by (elim exE conjE)
  have t0: "threshold_representable (fixed_clock now 0) days_threshold"
    using assms(2) by (simp add: fixed_clock_def)
  from analyze_all_tokens_char [where clk = "fixed_clock now" and thr = days_threshold
      and tokens = tokens and h = h and parse = parse, OF t0 assms(3)]
  obtain r hA where
    runA: "analyze_all_tokens parse (fixed_clock now) days_threshold tokens h = Inr (r, hA)"
    and b: "\<forall>c. bucket c r = filter (\<lambda>a. token_category parse
                (fixed_clock now 0 + days_threshold * us_per_day) (fixed_clock now 1) (h a) = Some c) tokens"
    and hh: "\<forall>a. hA a = (if a \<in> set tokens
               then token_update parse (fixed_clock now 0 + days_threshold * us_per_day)
                      (fixed_clock now 1) (h a) else h a)"
    by (elim exE conjE)
  have ex: "expired r = filter ?exp tokens"
    using b [rule_format, of Expired] token_category_problem [of parse ?td now]
    by (simp add: fixed_clock_def)
  have so: "expiring_soon r = filter ?soon tokens"
    using b [rule_format, of ExpiringSoon] token_category_problem [of parse ?td now]
    by (simp add: fixed_clock_def)
  have dis: "\<forall>a. \<not> (?exp a \<and> ?soon a)" by auto
  have un: "(\<lambda>a. ?exp a \<or> ?soon a) = ?sel" using le by (intro ext) auto
  have m: "mset (filter ?sel tokens) = mset (expired r @ expiring_soon r)"
    using mset_filter_disjoint [OF dis, of tokens] by (simp add: ex so un)
  have days: "\<forall>a\<in>set (filter ?sel tokens).
              dict_get (hL a) ''days_until_expiry'' = dict_get (hA a) ''days_until_expiry'' \<and>
              (\<exists>e. parsed_expiry parse (h a) = Some e \<and>
                   dict_get (hL a) ''days_until_expiry'' = PInt (days_between e now))"
  proof
    fix a assume "a \<in> set (filter ?sel tokens)"
    then obtain e where a: "a \<in> set tokens" and e: "parsed_expiry parse (h a) = Some e"
      and l: "e \<le> ?td" by auto
    from dL a e l have L: "dict_get (hL a) ''days_until_expiry'' = PInt (days_between e now)"
      by blast
    from assms(3) a have w: "expiry_well_typed (h a)" by blast
    from hh a have "hA a = token_update parse ?td now (h a)" by (simp add: fixed_clock_def)
    with token_update_days [OF w, of parse ?td now] e parsed_expiry_truthy [OF e]
    have "map_of (hA a) ''days_until_expiry'' = Some (PInt (days_between e now))" by simp
    then have "dict_get (hA a) ''days_until_expiry'' = PInt (days_between e now)"
      by (simp add: dict_get_def)
    with L e show "dict_get (hL a) ''days_until_expiry'' = dict_get (hA a) ''days_until_expiry'' \<and>
              (\<exists>e. parsed_expiry parse (h a) = Some e \<and>
                   dict_get (hL a) ''days_until_expiry'' = PInt (days_between e now))"
      by simp
  qed
  have none: "\<forall>a\<in>set tokens. parsed_expiry parse (h a) = None \<longrightarrow>
      a \<notin> set (filter ?sel tokens) \<and> a \<notin> set (expired r) \<and> a \<notin> set (expiring_soon r)"
    by (simp add: ex so)
  from runL runA m days none show ?thesis
    by (intro exI [of _ "filter ?sel tokens"] exI [of _ hL] exI [of _ r] exI [of _ hA] conjI)
qed

theorem legacy_check_disagrees_counterexample:
  "returned_tokens (check_token_expiration iso_parse (fixed_clock example_now) (- 7) [2] example_heap) =
     Some [] \<and>
   problem_tokens (analyze_all_tokens iso_parse (fixed_clock example_now) (- 7) [2] example_heap) =
     Some [2]"
  by (simp add: returned_tokens_def problem_tokens_def check_token_expiration_def
      analyze_all_tokens_def timedelta_days_def datetime_add_def fixed_clock_def example_now_def
      us_per_day_def max_us_def analyze_token_def example_heap_simps dict_get_def example_parses
      replace_tzinfo_None_def days_between_def Let_def)

theorem legacy_check_agrees_with_analysis_witness:
  "(0::int) \<le> 7 \<and> threshold_representable example_now 7 \<and>
   expiry_well_typed (example_heap 0) \<and> expiry_well_typed (example_heap 2) \<and>
   expiry_well_typed (example_heap 3) \<and> expiry_well_typed (example_heap 4) \<and>
   expiry_well_typed (example_heap 6) \<and>
   returned_tokens (check_token_expiration iso_parse (fixed_clock example_now) 7 [0, 2, 3, 4, 6]
     example_heap) = Some [0, 2, 6] \<and>
   problem_tokens (analyze_all_tokens iso_parse (fixed_clock example_now) 7 [0, 2, 3, 4, 6]
     example_heap) = Some [2, 0, 6] \<and>
   (\<exists>ts hL r hA.
      check_token_expiration iso_parse (fixed_clock example_now) 7 [0, 2, 3, 4, 6] example_heap =
        Inr (ts, hL) \<and>
      analyze_all_tokens iso_parse (fixed_clock example_now) 7 [0, 2, 3, 4, 6] example_heap =
        Inr (r, hA) \<and>
      mset ts = mset (expired r @ expiring_soon r) \<and>
      (\<forall>a\<in>set ts.
         dict_get (hL a) ''days_until_expiry'' = dict_get (hA a) ''days_until_expiry''))"
proof -
  have z: "(0::int) \<le> 7" by simp
  have t: "threshold_representable example_now 7" by (rule example_threshold)
  have w: "expiry_well_typed (example_heap 0)" "expiry_well_typed (example_heap 2)"
    "expiry_well_typed (example_heap 3)" "expiry_well_typed (example_heap 4)"
    "expiry_well_typed (example_heap 6)"
    by (simp_all add: example_heap_simps expiry_well_typed_def dict_get_def)
  then have wt: "\<forall>b\<in>set [0, 2, 3, 4, 6]. expiry_well_typed (example_heap b)" by simp
  from legacy_check_agrees_with_analysis [where parse = iso_parse and now = example_now
      and days_threshold = 7 and tokens = "[0, 2, 3, 4, 6]" and h = example_heap, OF z t wt]
  obtain ts hL r hA where
    runL: "check_token_expiration iso_parse (fixed_clock example_now) 7 [0, 2, 3, 4, 6] example_heap =
        Inr (ts, hL)"
    and runA: "analyze_all_tokens iso_parse (fixed_clock example_now) 7 [0, 2, 3, 4, 6] example_heap =
        Inr (r, hA)"
    and m: "mset ts = mset (expired r @ expiring_soon r)"
    and d: "\<forall>a\<in>set ts.
         dict_get (hL a) ''days_until_expiry'' = dict_get (hA a) ''days_until_expiry'' \<and>
         (\<exists>e. parsed_expiry iso_parse (example_heap a) = Some e \<and>
              dict_get (hL a) ''days_until_expiry'' = PInt (days_between e example_now))"
    by (elim exE conjE)
  from d have d': "\<forall>a\<in>set ts.
         dict_get (hL a) ''days_until_expiry'' = dict_get (hA a) ''days_until_expiry''"
    by blast
  have L: "returned_tokens (check_token_expiration iso_parse (fixed_clock example_now) 7
      [0, 2, 3, 4, 6] example_heap) = Some [0, 2, 6]"
    by (simp add: returned_tokens_def check_token_expiration_def timedelta_days_def
        datetime_add_def fixed_clock_def example_now_def us_per_day_def max_us_def
        example_heap_simps dict_get_def example_parses replace_tzinfo_None_def)
  have A: "problem_tokens (analyze_all_tokens iso_parse (fixed_clock example_now) 7
      [0, 2, 3, 4, 6] example_heap) = Some [2, 0, 6]"
    by (simp add: problem_tokens_def analyze_all_tokens_def timedelta_days_def
        datetime_add_def fixed_clock_def example_now_def us_per_day_def max_us_def
        analyze_token_def example_heap_simps dict_get_def example_parses
        replace_tzinfo_None_def Let_def)
  have E: "\<exists>ts hL r hA.
      check_token_expiration iso_parse (fixed_clock example_now) 7 [0, 2, 3, 4, 6] example_heap =
        Inr (ts, hL) \<and>
      analyze_all_tokens iso_parse (fixed_clock example_now) 7 [0, 2, 3, 4, 6] example_heap =
        Inr (r, hA) \<and>
      mset ts = mset (expired r @ expiring_soon r) \<and>
      (\<forall>a\<in>set ts.
         dict_get (hL a) ''days_until_expiry'' = dict_get (hA a) ''days_until_expiry'')"
    using runL runA m d'
    by (intro exI [of _ ts] exI [of _ hL] exI [of _ r] exI [of _ hA] conjI)
  from z t w L A E show ?thesis by (intro conjI)
qed

end
